theory Spec2Isabelle
  imports Main "HOL-Library.Word" "HOL-Library.Signed_Division" "HOL-Library.Log_Nat"
begin

unbundle bit_operations_syntax

section \<open>The EPOS signal I/O driver of ni_can_epos.c\<close>

subsection \<open>Channel indices and control/status bits\<close>

text \<open>
  The two anonymous enums of channel indices. A channel argument is an
  \<^verbatim>\<open>unsigned int\<close>; it is only ever compared with the channel counts and used as
  an index below them, so it is a \<open>nat\<close> here.
\<close>

definition INPUT_POSITION :: nat where "INPUT_POSITION = 0"
definition INPUT_VELOCITY :: nat where "INPUT_VELOCITY = 1"
definition INPUT_CURRENT :: nat where "INPUT_CURRENT = 2"
definition INPUT_ANALOG :: nat where "INPUT_ANALOG = 3"
definition INPUT_CHANNELS_NUMBER :: nat where "INPUT_CHANNELS_NUMBER = 4"

definition OUTPUT_POSITION :: nat where "OUTPUT_POSITION = 0"
definition OUTPUT_VELOCITY :: nat where "OUTPUT_VELOCITY = 1"
definition OUTPUT_CURRENT :: nat where "OUTPUT_CURRENT = 2"
definition OUTPUT_CHANNELS_NUMBER :: nat where "OUTPUT_CHANNELS_NUMBER = 3"

text \<open>The bits of \<^verbatim>\<open>enum States\<close> and \<^verbatim>\<open>enum Controls\<close> that the code uses.\<close>

definition FAULT :: "16 word" where "FAULT = 8"

definition SWITCH_ON :: "16 word" where "SWITCH_ON = 1"
definition ENABLE_VOLTAGE :: "16 word" where "ENABLE_VOLTAGE = 2"
definition QUICK_STOP :: "16 word" where "QUICK_STOP = 4"
definition ENABLE_OPERATION :: "16 word" where "ENABLE_OPERATION = 8"
definition FAULT_RESET :: "16 word" where "FAULT_RESET = 128"

text \<open>The table \<^verbatim>\<open>OPERATION_MODES\<close> of AcquireOutputChannel.\<close>

definition OPERATION_MODES :: "int list" where
  "OPERATION_MODES = [0xFF, 0xFE, 0xFD]"

subsection \<open>The transport, as the driver sees it\<close>

text \<open>
  Modelled from the spec: can_network.h is not among the sources. It declares the three
  frame kinds (two process-data frames and the service-data frame, so that
  \<^verbatim>\<open>CAN_FRAME_TYPES_NUMBER\<close> is 3), the two directions and the opaque frame handle,
  a pointer that may be null.
\<close>

datatype CANFrameType = SDO | PDO01 | PDO02

datatype direction = FRAME_IN | FRAME_OUT

type_synonym CANFrame = "nat option"

text \<open>
  Modelled from the spec: the order in which the loops over
  \<^verbatim>\<open>frameType < CAN_FRAME_TYPES_NUMBER\<close> meet the three kinds is the order of the
  enumerators of can_network.h, which is not among the sources. Only the order of the
  transport calls inside one such loop depends on it.
\<close>

definition CAN_FRAME_TYPES :: "CANFrameType list" where
  "CAN_FRAME_TYPES = [SDO, PDO01, PDO02]"

text \<open>
  Every call of the transport, of the delay primitive and nothing else is recorded, in
  order, in a trace. Diagnostic printing is left out.
\<close>

datatype event =
    InitFrame CANFrameType direction "32 word"
  | EndFrame CANFrame
  | FrameRead CANFrame
  | FrameWrite CANFrame "8 word list"
  | Sync
  | WriteSingleValue CANFrame nat nat int
  | Delay nat

subsection \<open>C arithmetic\<close>

text \<open>
  An \<^verbatim>\<open>int\<close> is a \<open>32 word\<close> read by \<open>sint\<close>: sums and products wrap around
  (C leaves signed overflow undefined; two's complement wrap-around is what the
  arithmetic instructions of the targets do). Division of two ints truncates towards
  zero; division of two unsigned ints is \<open>div\<close> on the words.
\<close>

definition int_div :: "32 word \<Rightarrow> 32 word \<Rightarrow> 32 word" where
  "int_div a b = word_of_int (sint a sdiv sint b)"

text \<open>
  The four byte extractions of Write, on an int \<open>x\<close>:
  \<^verbatim>\<open>(uint8_t) ( x & 0x000000FF )\<close>,
  \<^verbatim>\<open>(uint8_t) ( ( x & 0x0000FF00 ) / 0x100 )\<close>,
  \<^verbatim>\<open>(uint8_t) ( ( x & 0x00FF0000 ) / 0x10000 )\<close> and
  \<^verbatim>\<open>(uint8_t) ( ( x & 0xFF000000 ) / 0x1000000 )\<close>.
  The constant \<^verbatim>\<open>0xFF000000\<close> does not fit an int and so is an unsigned int: the last
  conjunction and division are unsigned. The other three are signed.
\<close>

definition int_byte0 :: "32 word \<Rightarrow> 8 word" where
  "int_byte0 x = ucast (x AND 0x000000FF)"

definition int_byte1 :: "32 word \<Rightarrow> 8 word" where
  "int_byte1 x = ucast (int_div (x AND 0x0000FF00) 0x100)"

definition int_byte2 :: "32 word \<Rightarrow> 8 word" where
  "int_byte2 x = ucast (int_div (x AND 0x00FF0000) 0x10000)"

definition int_byte3 :: "32 word \<Rightarrow> 8 word" where
  "int_byte3 x = ucast ((x AND 0xFF000000) div 0x1000000)"

subsection \<open>Doubles\<close>

text \<open>
  A finite double is modelled by the rational number it denotes. The result of a
  multiplication or division is the exact result rounded to the nearest double, ties to
  even (the default rounding of IEEE 754 binary64): 53 significant bits, and no bit below
  \<open>2 powr -1074\<close>. The infinities and NaN are left out. The one product of the
  driver that can overflow to an infinity, \<^verbatim>\<open>value * 1000.0\<close> in Write, is here a finite
  number beyond the range of int: like the infinity, it takes the out-of-range branch of
  the conversion to an integer, and it has the same sign.
\<close>

type_synonym double = rat

definition pow2 :: "int \<Rightarrow> rat" where
  "pow2 k = (if 0 \<le> k then 2 ^ nat k else 1 / 2 ^ nat (- k))"

text \<open>For \<open>0 < x\<close>, the integer \<open>e\<close> with \<open>pow2 e \<le> x < pow2 (e + 1)\<close>.\<close>

definition ilog2 :: "rat \<Rightarrow> int" where
  "ilog2 x =
     (if 1 \<le> x then bitlen \<lfloor>x\<rfloor> - 1
      else (let k = bitlen \<lfloor>1 / x\<rfloor> - 1 in if 1 / x = pow2 k then - k else - k - 1))"

definition round_half_even :: "rat \<Rightarrow> int" where
  "round_half_even x =
     (let f = \<lfloor>x\<rfloor>; d = x - of_int f
      in if d < 1 / 2 then f else if 1 / 2 < d then f + 1 else if even f then f else f + 1)"

definition round_double :: "rat \<Rightarrow> double" where
  "round_double x =
     (if x = 0 then 0
      else (let u = pow2 (max (ilog2 \<bar>x\<bar>) (- 1022) - 52)
            in of_int (round_half_even (x / u)) * u))"

definition dmul :: "double \<Rightarrow> double \<Rightarrow> double" where
  "dmul x y = round_double (x * y)"

definition ddiv :: "double \<Rightarrow> double \<Rightarrow> double" where
  "ddiv x y = round_double (x / y)"

text \<open>An int converts to a double exactly: it has at most 32 significant bits.\<close>

definition int_to_double :: "32 word \<Rightarrow> double" where
  "int_to_double x = of_int (sint x)"

definition trunc :: "rat \<Rightarrow> int" where
  "trunc x = (if 0 \<le> x then \<lfloor>x\<rfloor> else \<lceil>x\<rceil>)"

subsection \<open>The task\<close>

text \<open>
  The struct of a task. Its arrays are functions of the index, of which the code uses the
  indices below the array's size only: the channel of Read is checked, every other index
  is a constant. \<^verbatim>\<open>CANFrame_Read\<close> fills all eight bytes of the payload it is given
  and \<^verbatim>\<open>CANFrame_Write\<close> is handed the eight bytes of the payload, in order.
  A \<^verbatim>\<open>SignalIOTask\<close> is a pointer to such a struct: \<open>None\<close> is the null pointer.
  Each struct is reached through one entry of the table only, so the entry holds it;
  \<^verbatim>\<open>malloc\<close> (taken to succeed, as the code takes it) makes one.
\<close>

record SignalIOTaskData =
  readFramesList :: "CANFrameType \<Rightarrow> CANFrame"
  writeFramesList :: "CANFrameType \<Rightarrow> CANFrame"
  statusWord :: "16 word"
  controlWord :: "16 word"
  measuresList :: "nat \<Rightarrow> double"
  isReading :: bool
  isOutputChannelUsed :: bool
  readPayload :: "nat \<Rightarrow> 8 word"
  writePayload :: "nat \<Rightarrow> 8 word"

subsection \<open>What the driver does not decide\<close>

text \<open>
  Modelled from the spec: khash.h is not among the sources. \<^verbatim>\<open>kh_del(name, h, x)\<close>
  takes the iterator \<^verbatim>\<open>x\<close> of an entry, that is the number of its bucket as
  \<^verbatim>\<open>kh_get\<close> returns it. It does nothing when \<^verbatim>\<open>x\<close> is \<^verbatim>\<open>kh_end(h)\<close> or when
  the flags it reads for \<^verbatim>\<open>x\<close> say empty or deleted; otherwise it marks these flags
  deleted and decrements \<^verbatim>\<open>h->size\<close>. What it finds at a number \<^verbatim>\<open>x\<close> is one of:
  nothing to delete (\<open>Vacant\<close>); the bucket that holds a key (\<open>Holds\<close>), which is
  thereby removed; or, for a number beyond the buckets, memory outside the table that
  reads as the flags of a live bucket (\<open>Stray\<close>), where the size is decremented and no
  entry is removed.
\<close>

datatype bucket = Vacant | Holds "32 word" | Stray

text \<open>
  What the collaborators give back is not decided by the driver: it is a parameter of
  the model. The handle returned by \<^verbatim>\<open>CANNetwork_InitFrame\<close> (\<open>None\<close> is the null
  handle) and the eight bytes \<^verbatim>\<open>CANFrame_Read\<close> copies out, by byte index, are
  functions of the number of calls made so far (the length of the trace) and of the
  arguments, so that any behaviour of the bus is some choice of them. The hash of
  khash.h's \<^verbatim>\<open>kh_str_hash_func\<close> and the number \<^verbatim>\<open>strtoul\<close> parses are functions
  of the text. \<open>kh_bucket\<close> is what \<^verbatim>\<open>kh_del\<close> finds at a number, in a table with
  the given keys. \<open>freed_memory\<close> is what the memory of a struct holds once
  \<^verbatim>\<open>free\<close> has returned it, for a pointer to it that is still in use: the memory
  stays readable and writable. \<open>out_of_range_int\<close> is what the conversion of a double
  to \<^verbatim>\<open>int\<close> gives when the value does not fit, which C leaves undefined and the
  processors answer differently.
\<close>

record externals =
  kh_str_hash_func :: "string \<Rightarrow> 32 word"
  strtoul :: "string \<Rightarrow> 32 word"
  CANNetwork_InitFrame :: "nat \<Rightarrow> CANFrameType \<Rightarrow> direction \<Rightarrow> 32 word \<Rightarrow> CANFrame"
  CANFrame_Read :: "nat \<Rightarrow> CANFrame \<Rightarrow> nat \<Rightarrow> 8 word"
  kh_bucket :: "nat \<Rightarrow> 32 word set \<Rightarrow> 32 word \<Rightarrow> bucket"
  freed_memory :: "nat \<Rightarrow> SignalIOTaskData \<Rightarrow> SignalIOTaskData"
  out_of_range_int :: "double \<Rightarrow> 32 word"

text \<open>
  The conversion of a double to a signed integer type drops the fraction. The compiled
  code converts to \<^verbatim>\<open>int\<close> with the processor's instruction and, for
  \<^verbatim>\<open>int16_t\<close>, keeps the low 16 bits of that: a value that fits \<^verbatim>\<open>int\<close> but not
  \<^verbatim>\<open>int16_t\<close> wraps around, as the sums and products of ints do. For a value that
  does not fit \<^verbatim>\<open>int\<close> the instruction gives \<open>out_of_range_int\<close>. The program goes
  on in every case.
\<close>

definition double_to_int :: "externals \<Rightarrow> double \<Rightarrow> 32 word" where
  "double_to_int X x =
     (if - (2 ^ 31) \<le> trunc x \<and> trunc x < 2 ^ 31 then word_of_int (trunc x)
      else out_of_range_int X x)"

definition double_to_int16 :: "externals \<Rightarrow> double \<Rightarrow> 16 word" where
  "double_to_int16 X x = ucast (double_to_int X x)"

subsection \<open>The registry\<close>

text \<open>
  Modelled from the spec: khash.h is not among the sources. The table it generates is the
  mapping from integer handle to Task of the spec, with unique keys; \<^verbatim>\<open>kh_put\<close> adds a
  key that is not there, counts it in \<^verbatim>\<open>h->size\<close> and reports whether it did.
  \<^verbatim>\<open>tasksList\<close> is a pointer to the table, null (\<open>None\<close>) until \<^verbatim>\<open>kh_init\<close> and
  again after \<^verbatim>\<open>kh_destroy\<close>; \<open>tasksList_size\<close> is the \<^verbatim>\<open>size\<close> field of the
  table while there is one. In khash.h \<^verbatim>\<open>kh_end(h)\<close> is \<^verbatim>\<open>(h)->n_buckets\<close>,
  \<^verbatim>\<open>kh_size(h)\<close> is \<^verbatim>\<open>(h)->size\<close> and \<^verbatim>\<open>kh_get\<close> begins by reading
  \<^verbatim>\<open>h->n_buckets\<close>: each of them dereferences the table pointer. The \<^verbatim>\<open>int\<close>
  handle and the \<^verbatim>\<open>khint_t\<close> key are the same 32 bits: the casts between them change
  none, and \<open>- 1\<close> is the handle \<^verbatim>\<open>-1\<close>.
\<close>

record world =
  tasksList :: "(32 word \<rightharpoonup> SignalIOTaskData option) option"
  tasksList_size :: "32 word"
  trace :: "event list"

datatype error = NullDereference

definition kh_del ::
  "externals \<Rightarrow> nat \<Rightarrow> (32 word \<rightharpoonup> SignalIOTaskData option) \<times> 32 word \<Rightarrow> 32 word \<Rightarrow>
   (32 word \<rightharpoonup> SignalIOTaskData option) \<times> 32 word" where
  "kh_del X n h x =
     (case h of (m, count) \<Rightarrow>
        (case kh_bucket X n (dom m) x of
           Vacant \<Rightarrow> (m, count)
         | Holds k \<Rightarrow> (m(k := None), count - 1)
         | Stray \<Rightarrow> (m, count - 1)))"

definition emit :: "event \<Rightarrow> world \<Rightarrow> world" where
  "emit e w = w\<lparr>trace := trace w @ [e]\<rparr>"

subsection \<open>Loading and unloading a task\<close>

text \<open>The struct after \<^verbatim>\<open>memset( newTask, 0, sizeof(SignalIOTaskData) )\<close>.\<close>

definition zeroTaskData :: SignalIOTaskData where
  "zeroTaskData =
     \<lparr>readFramesList = (\<lambda>_. None), writeFramesList = (\<lambda>_. None),
      statusWord = 0, controlWord = 0,
      measuresList = (\<lambda>_. 0),
      isReading = False, isOutputChannelUsed = False,
      readPayload = (\<lambda>_. 0), writePayload = (\<lambda>_. 0)\<rparr>"

text \<open>The loop of UnloadTaskData over the frame kinds.\<close>

fun end_frames :: "SignalIOTaskData \<Rightarrow> CANFrameType list \<Rightarrow> world \<Rightarrow> world" where
  "end_frames task [] w = w"
| "end_frames task (frameID # rest) w =
     end_frames task rest
       (emit (EndFrame (writeFramesList task frameID))
          (emit (EndFrame (readFramesList task frameID)) w))"

definition UnloadTaskData :: "SignalIOTaskData option \<Rightarrow> world \<Rightarrow> world" where
  "UnloadTaskData task w =
     (case task of None \<Rightarrow> w | Some t \<Rightarrow> end_frames t CAN_FRAME_TYPES w)"

text \<open>The loop of LoadTaskData: the task, \<^verbatim>\<open>loadError\<close> and the world go round.\<close>

fun init_frames ::
  "externals \<Rightarrow> 32 word \<Rightarrow> CANFrameType list \<Rightarrow> SignalIOTaskData \<times> bool \<times> world \<Rightarrow>
   SignalIOTaskData \<times> bool \<times> world" where
  "init_frames X nodeID [] s = s"
| "init_frames X nodeID (frameType # rest) (task, loadError, w) =
     (let rf = CANNetwork_InitFrame X (length (trace w)) frameType FRAME_IN nodeID;
          w1 = emit (InitFrame frameType FRAME_IN nodeID) w;
          task1 = task\<lparr>readFramesList := (readFramesList task)(frameType := rf)\<rparr>;
          loadError1 = (if rf = None then True else loadError);
          wf = CANNetwork_InitFrame X (length (trace w1)) frameType FRAME_OUT nodeID;
          w2 = emit (InitFrame frameType FRAME_OUT nodeID) w1;
          task2 = task1\<lparr>writeFramesList := (writeFramesList task1)(frameType := wf)\<rparr>;
          loadError2 = (if wf = None then True else loadError1)
      in init_frames X nodeID rest (task2, loadError2, w2))"

definition LoadTaskData :: "externals \<Rightarrow> string \<Rightarrow> world \<Rightarrow> SignalIOTaskData option \<times> world" where
  "LoadTaskData X taskConfig w =
     (let nodeID = strtoul X taskConfig;
          (task, loadError, w1) = init_frames X nodeID CAN_FRAME_TYPES (zeroTaskData, False, w);
          newTask = task\<lparr>isOutputChannelUsed := False\<rparr>
      in if loadError then (None, UnloadTaskData (Some newTask) w1)
         else (let newTask1 = newTask\<lparr>controlWord := ENABLE_VOLTAGE OR QUICK_STOP\<rparr>
               in (Some newTask1,
                   emit (WriteSingleValue (writeFramesList newTask1 SDO) 0x6040 0x00
                           (uint (controlWord newTask1))) w1)))"

subsection \<open>The control word sequences\<close>

definition EnableOutput :: "SignalIOTaskData \<Rightarrow> bool \<Rightarrow> world \<Rightarrow> SignalIOTaskData \<times> world" where
  "EnableOutput task enable w =
     (let task1 = task\<lparr>controlWord := controlWord task OR SWITCH_ON\<rparr>;
          task2 = task1\<lparr>controlWord := controlWord task1 AND NOT ENABLE_OPERATION\<rparr>;
          w1 = emit (WriteSingleValue (writeFramesList task2 SDO) 0x6040 0x00
                       (uint (controlWord task2))) w;
          w2 = emit (Delay 200) w1;
          task3 = (if enable then task2\<lparr>controlWord := controlWord task2 OR ENABLE_OPERATION\<rparr>
                   else task2\<lparr>controlWord := controlWord task2 AND NOT SWITCH_ON\<rparr>);
          w3 = emit (WriteSingleValue (writeFramesList task3 SDO) 0x6040 0x00
                       (uint (controlWord task3))) w2
      in (task3, w3))"

subsection \<open>The public operations\<close>

text \<open>
  Every operation but InitDevice begins with the lookup: \<^verbatim>\<open>kh_get\<close> on
  \<^verbatim>\<open>tasksList\<close>, then the comparison with \<^verbatim>\<open>kh_end\<close>. A task pointer found in
  the table is dereferenced where the source first reads or writes a field through it.
\<close>

text \<open>
  EndDevice frees the task and then hands \<^verbatim>\<open>kh_del\<close> the key \<^verbatim>\<open>taskID\<close> where
  \<^verbatim>\<open>kh_del\<close> takes the iterator (line 104; the iterator is \<^verbatim>\<open>taskIndex\<close>). The
  entry of the task points to the freed struct from then on, for as long as it stays.
\<close>

definition EndDevice :: "externals \<Rightarrow> world \<Rightarrow> 32 word \<Rightarrow> error + world" where
  "EndDevice X w taskID =
     (case tasksList w of
        None \<Rightarrow> Inl NullDereference
      | Some m \<Rightarrow>
          (case m taskID of
             None \<Rightarrow> Inr w
           | Some None \<Rightarrow> Inl NullDereference
           | Some (Some task) \<Rightarrow>
               (let task1 = task\<lparr>isReading := False\<rparr>;
                    (task2, w1) = EnableOutput task1 False w;
                    w2 = UnloadTaskData (Some task2) w1;
                    m0 = m(taskID \<mapsto> Some (freed_memory X (length (trace w2)) task2));
                    (m1, count1) = kh_del X (length (trace w2)) (m0, tasksList_size w2) taskID
                in Inr (if count1 = 0 then w2\<lparr>tasksList := None, tasksList_size := count1\<rparr>
                        else w2\<lparr>tasksList := Some m1, tasksList_size := count1\<rparr>))))"

text \<open>
  \<^verbatim>\<open>kh_init\<close> makes an empty table of size 0. \<^verbatim>\<open>kh_put\<close> adds the key when it is
  new (\<^verbatim>\<open>insertionStatus > 0\<close>) and counts it; the value of the new entry is set from
  the result of LoadTaskData, which does not touch the table, so the entry appears with
  that value. When the key is there already, the entry stays as it is.
\<close>

definition InitDevice :: "externals \<Rightarrow> world \<Rightarrow> string \<Rightarrow> error + (32 word \<times> world)" where
  "InitDevice X w taskConfig =
     (let m = (case tasksList w of None \<Rightarrow> Map.empty | Some m0 \<Rightarrow> m0);
          count = (case tasksList w of None \<Rightarrow> 0 | Some m0 \<Rightarrow> tasksList_size w);
          taskKey = kh_str_hash_func X taskConfig
      in case m taskKey of
           Some task \<Rightarrow> Inr (taskKey, w\<lparr>tasksList := Some m\<rparr>)
         | None \<Rightarrow>
             (let (newTask, w1) = LoadTaskData X taskConfig w;
                  w2 = w1\<lparr>tasksList := Some (m(taskKey \<mapsto> newTask)), tasksList_size := count + 1\<rparr>
              in if newTask = None
                 then (case EndDevice X w2 taskKey of
                         Inl e \<Rightarrow> Inl e
                       | Inr w3 \<Rightarrow> Inr (- 1, w3))
                 else Inr (taskKey, w2)))"

definition GetMaxInputSamplesNumber :: "world \<Rightarrow> 32 word \<Rightarrow> error + nat" where
  "GetMaxInputSamplesNumber w taskID =
     (case tasksList w of
        None \<Rightarrow> Inl NullDereference
      | Some m \<Rightarrow> (case m taskID of None \<Rightarrow> Inr 0 | Some task \<Rightarrow> Inr 1))"

text \<open>
  The part of Read from the first \<^verbatim>\<open>CANFrame_Read\<close> to the last assignment to
  \<^verbatim>\<open>measuresList\<close>: both frames are copied into \<^verbatim>\<open>readPayload\<close> and decoded.
  The bytes are promoted to int, so the sums and products are int arithmetic, and the
  results are converted to double on assignment.
\<close>

definition Read_frames :: "externals \<Rightarrow> SignalIOTaskData \<Rightarrow> world \<Rightarrow> SignalIOTaskData \<times> world" where
  "Read_frames X t w1 =
     (let t1 = t\<lparr>readPayload := CANFrame_Read X (length (trace w1)) (readFramesList t PDO01)\<rparr>;
          w2 = emit (FrameRead (readFramesList t PDO01)) w1;
          t2 = t1\<lparr>measuresList := (measuresList t1)(INPUT_POSITION :=
                 int_to_double
                   (ucast (readPayload t1 3) * 0x1000000
                    + ucast (readPayload t1 2) * 0x10000
                    + ucast (readPayload t1 1) * 0x100
                    + ucast (readPayload t1 0)))\<rparr>;
          currentHEX = (ucast (readPayload t2 5) * 0x100 + ucast (readPayload t2 4) :: 32 word);
          currentMA = int_to_double (currentHEX - (if 0x8000 \<le>s currentHEX then 0xFFFF else 0));
          t3 = t2\<lparr>measuresList := (measuresList t2)(INPUT_CURRENT := ddiv currentMA 1000)\<rparr>;
          t4 = t3\<lparr>statusWord := ucast (ucast (readPayload t3 7) * 0x100
                                        + ucast (readPayload t3 6) :: 32 word)\<rparr>;
          t5 = t4\<lparr>readPayload := CANFrame_Read X (length (trace w2)) (readFramesList t4 PDO02)\<rparr>;
          w3 = emit (FrameRead (readFramesList t4 PDO02)) w2;
          t6 = t5\<lparr>measuresList := (measuresList t5)(INPUT_VELOCITY :=
                 int_to_double
                   (ucast (readPayload t5 3) * 0x1000000
                    + ucast (readPayload t5 2) * 0x10000
                    + ucast (readPayload t5 1) * 0x100
                    + ucast (readPayload t5 0)))\<rparr>;
          t7 = t6\<lparr>measuresList := (measuresList t6)(INPUT_ANALOG :=
                 int_to_double (ucast (readPayload t6 5) * 0x100 + ucast (readPayload t6 4)))\<rparr>
      in (t7, w3))"

text \<open>
  Read gives back the count it returns and, when it stored one, the value it stored
  through \<^verbatim>\<open>ref_value\<close>.
\<close>

definition Read ::
  "externals \<Rightarrow> world \<Rightarrow> 32 word \<Rightarrow> nat \<Rightarrow> error + ((nat \<times> double option) \<times> world)" where
  "Read X w taskID channel =
     (case tasksList w of
        None \<Rightarrow> Inl NullDereference
      | Some m \<Rightarrow>
          (case m taskID of
             None \<Rightarrow> Inr ((0, None), w)
           | Some task \<Rightarrow>
               if channel \<ge> INPUT_CHANNELS_NUMBER then Inr ((0, None), w)
               else
                 (let w1 = emit Sync w
                  in case task of
                       None \<Rightarrow> Inl NullDereference
                     | Some t \<Rightarrow>
                         (let (t7, w3) = Read_frames X t w1
                          in Inr ((1, Some (measuresList t7 channel)),
                                  w3\<lparr>tasksList := Some (m(taskID \<mapsto> Some t7))\<rparr>)))))"

definition HasError :: "world \<Rightarrow> 32 word \<Rightarrow> error + bool" where
  "HasError w taskID =
     (case tasksList w of
        None \<Rightarrow> Inl NullDereference
      | Some m \<Rightarrow>
          (case m taskID of
             None \<Rightarrow> Inr False
           | Some None \<Rightarrow> Inl NullDereference
           | Some (Some task) \<Rightarrow> Inr (statusWord task AND FAULT \<noteq> 0)))"

definition Reset :: "world \<Rightarrow> 32 word \<Rightarrow> error + world" where
  "Reset w taskID =
     (case tasksList w of
        None \<Rightarrow> Inl NullDereference
      | Some m \<Rightarrow>
          (case m taskID of
             None \<Rightarrow> Inr w
           | Some None \<Rightarrow> Inl NullDereference
           | Some (Some task) \<Rightarrow>
               (let task1 = task\<lparr>controlWord := controlWord task OR FAULT_RESET\<rparr>;
                    w1 = emit (WriteSingleValue (writeFramesList task1 SDO) 0x6040 0x00
                                 (uint (controlWord task1))) w;
                    w2 = emit (Delay 200) w1;
                    task2 = task1\<lparr>controlWord := controlWord task1 AND NOT FAULT_RESET\<rparr>;
                    w3 = emit (WriteSingleValue (writeFramesList task2 SDO) 0x6040 0x00
                                 (uint (controlWord task2))) w2
                in Inr (w3\<lparr>tasksList := Some (m(taskID \<mapsto> Some task2))\<rparr>))))"

definition CheckInputChannel :: "world \<Rightarrow> 32 word \<Rightarrow> nat \<Rightarrow> error + bool" where
  "CheckInputChannel w taskID channel =
     (case tasksList w of
        None \<Rightarrow> Inl NullDereference
      | Some m \<Rightarrow>
          (case m taskID of
             None \<Rightarrow> Inr False
           | Some task \<Rightarrow> if channel \<ge> INPUT_CHANNELS_NUMBER then Inr False else Inr True))"

definition Write :: "externals \<Rightarrow> world \<Rightarrow> 32 word \<Rightarrow> nat \<Rightarrow> double \<Rightarrow> error + (bool \<times> world)" where
  "Write X w taskID channel v =
     (case tasksList w of
        None \<Rightarrow> Inl NullDereference
      | Some m \<Rightarrow>
          (case m taskID of
             None \<Rightarrow> Inr (False, w)
           | Some task \<Rightarrow>
               (let encoderSetpoint = double_to_int X v;
                    currentSetpointMA = dmul v 1000;
                    currentSetpointHEX =
                      (ucast ((scast (double_to_int16 X currentSetpointMA) :: 32 word)
                              + (if currentSetpointMA < 0 then 0xFFFF else 0)) :: 16 word)
                in case task of
                     None \<Rightarrow> Inl NullDereference
                   | Some t \<Rightarrow>
                       (let t1 = t\<lparr>writePayload := (writePayload t)
                                    (0 := int_byte0 encoderSetpoint,
                                     1 := int_byte1 encoderSetpoint,
                                     2 := int_byte2 encoderSetpoint,
                                     3 := int_byte3 encoderSetpoint,
                                     4 := int_byte0 (scast currentSetpointHEX),
                                     5 := int_byte1 (scast currentSetpointHEX),
                                     6 := int_byte0 (ucast (controlWord t)),
                                     7 := int_byte1 (ucast (controlWord t)))\<rparr>;
                            w1 = emit (FrameWrite (writeFramesList t1 PDO01)
                                         (map (writePayload t1) [0..<8])) w;
                            velocitySetpointRPM = double_to_int X v;
                            digitalOutput = double_to_int16 X v;
                            t2 = t1\<lparr>writePayload := (writePayload t1)
                                    (0 := int_byte0 velocitySetpointRPM,
                                     1 := int_byte1 velocitySetpointRPM,
                                     2 := int_byte2 velocitySetpointRPM,
                                     3 := int_byte3 velocitySetpointRPM,
                                     4 := int_byte0 (scast digitalOutput),
                                     5 := int_byte1 (scast digitalOutput),
                                     6 := 0,
                                     7 := 0)\<rparr>;
                            w2 = emit (FrameWrite (writeFramesList t2 PDO02)
                                         (map (writePayload t2) [0..<8])) w1;
                            w3 = emit Sync w2
                        in Inr (True, w3\<lparr>tasksList := Some (m(taskID \<mapsto> Some t2))\<rparr>)))))"

definition AcquireOutputChannel :: "world \<Rightarrow> 32 word \<Rightarrow> nat \<Rightarrow> error + (bool \<times> world)" where
  "AcquireOutputChannel w taskID channel =
     (case tasksList w of
        None \<Rightarrow> Inl NullDereference
      | Some m \<Rightarrow>
          (case m taskID of
             None \<Rightarrow> Inr (False, w)
           | Some task \<Rightarrow>
               if channel \<ge> OUTPUT_CHANNELS_NUMBER then Inr (False, w)
               else
                 (case task of
                    None \<Rightarrow> Inl NullDereference
                  | Some t \<Rightarrow>
                      if isOutputChannelUsed t then Inr (False, w)
                      else
                        (let w1 = emit (WriteSingleValue (writeFramesList t SDO) 0x6060 0x00
                                          (OPERATION_MODES ! channel)) w;
                             (t1, w2) = EnableOutput t True w1;
                             t2 = t1\<lparr>isOutputChannelUsed := True\<rparr>
                         in Inr (True, w2\<lparr>tasksList := Some (m(taskID \<mapsto> Some t2))\<rparr>)))))"

definition ReleaseOutputChannel :: "world \<Rightarrow> 32 word \<Rightarrow> nat \<Rightarrow> error + world" where
  "ReleaseOutputChannel w taskID channel =
     (case tasksList w of
        None \<Rightarrow> Inl NullDereference
      | Some m \<Rightarrow>
          (case m taskID of
             None \<Rightarrow> Inr w
           | Some task \<Rightarrow>
               if channel \<ge> OUTPUT_CHANNELS_NUMBER then Inr w
               else
                 (case task of
                    None \<Rightarrow> Inl NullDereference
                  | Some t \<Rightarrow>
                      (let w1 = emit (WriteSingleValue (writeFramesList t SDO) 0x6060 0x00 0x00) w;
                           (t1, w2) = EnableOutput t False w1;
                           t2 = t1\<lparr>isOutputChannelUsed := False\<rparr>
                       in Inr (w2\<lparr>tasksList := Some (m(taskID \<mapsto> Some t2))\<rparr>)))))"

subsection \<open>Reading the results\<close>

text \<open>
  The value of two and of four bytes read as little-endian unsigned numbers, from index
  \<open>i\<close> of a payload on.
\<close>

definition le16 :: "(nat \<Rightarrow> 8 word) \<Rightarrow> nat \<Rightarrow> int" where
  "le16 p i = uint (p i) + 256 * uint (p (i + 1))"

definition le32 :: "(nat \<Rightarrow> 8 word) \<Rightarrow> nat \<Rightarrow> int" where
  "le32 p i = uint (p i) + 256 * uint (p (i + 1)) + 65536 * uint (p (i + 2))
              + 16777216 * uint (p (i + 3))"

text \<open>What an operation returned and the trace it left, when it came back at all.\<close>

definition returned :: "error + ('a \<times> world) \<Rightarrow> 'a option" where
  "returned r = (case r of Inl e \<Rightarrow> None | Inr (x, w) \<Rightarrow> Some x)"

definition trace_after :: "error + ('a \<times> world) \<Rightarrow> event list" where
  "trace_after r = (case r of Inl e \<Rightarrow> [] | Inr (x, w) \<Rightarrow> trace w)"

subsection \<open>A node for the examples\<close>

text \<open>
  The state of the program before any call, and collaborators for the examples: the
  string hash and the decimal parse on plain digits, a transport that hands out the
  frame handles 0 to 5, inbound frames that hold position 10000, current bytes
  \<open>0xFC18\<close> and status \<open>0x0237\<close>, freed memory that keeps what it held, and the
  conversion of an out-of-range double that gives \<open>0x80000000\<close>.
\<close>

definition initial_world :: world where
  "initial_world = \<lparr>tasksList = None, tasksList_size = 0, trace = []\<rparr>"

definition X31_hash :: "string \<Rightarrow> 32 word" where
  "X31_hash s = (case s of [] \<Rightarrow> 0 | c # cs \<Rightarrow> foldl (\<lambda>h d. h * 31 + of_char d) (of_char c) cs)"

definition decimal :: "string \<Rightarrow> 32 word" where
  "decimal s = foldl (\<lambda>n c. n * 10 + (of_char c - 48)) 0 s"

fun example_frame :: "CANFrameType \<Rightarrow> direction \<Rightarrow> nat" where
  "example_frame SDO FRAME_IN = 0"
| "example_frame SDO FRAME_OUT = 1"
| "example_frame PDO01 FRAME_IN = 2"
| "example_frame PDO01 FRAME_OUT = 3"
| "example_frame PDO02 FRAME_IN = 4"
| "example_frame PDO02 FRAME_OUT = 5"

text \<open>
  The table of four buckets that khash.h makes for one key, here 53, which sits in bucket
  \<open>53 mod 4\<close>; the flags of the numbers up to 15 are in the one word of flags the
  table has and say empty from 4 on; the memory beyond reads as zeros, that is as live
  buckets.
\<close>

definition example_bucket :: "nat \<Rightarrow> 32 word set \<Rightarrow> 32 word \<Rightarrow> bucket" where
  "example_bucket n keys x =
     (if x = 1 \<and> 53 \<in> keys then Holds 53 else if x < 16 then Vacant else Stray)"

definition example_payload :: "nat \<Rightarrow> 8 word" where
  "example_payload i = (if i < 8 then [0x10, 0x27, 0x00, 0x00, 0x18, 0xFC, 0x37, 0x02] ! i else 0)"

definition example_externals :: externals where
  "example_externals =
     \<lparr>kh_str_hash_func = X31_hash, strtoul = decimal,
      CANNetwork_InitFrame = (\<lambda>n frameType dir nodeID. Some (example_frame frameType dir)),
      CANFrame_Read = (\<lambda>n frame. example_payload),
      kh_bucket = example_bucket,
      freed_memory = (\<lambda>n task. task),
      out_of_range_int = (\<lambda>x. 0x80000000)\<rparr>"

text \<open>The same with position and velocity bytes \<open>00 00 00 80\<close> on the bus.\<close>

definition high_payload :: "nat \<Rightarrow> 8 word" where
  "high_payload i = (if i < 8 then [0x00, 0x00, 0x00, 0x80, 0x00, 0x00, 0x37, 0x02] ! i else 0)"

definition high_externals :: externals where
  "high_externals = example_externals\<lparr>CANFrame_Read := (\<lambda>n frame. high_payload)\<rparr>"

text \<open>The same with a transport that cannot allocate the outbound PDO02 frame.\<close>

definition failing_externals :: externals where
  "failing_externals =
     example_externals\<lparr>CANNetwork_InitFrame :=
       (\<lambda>n frameType dir nodeID.
          if frameType = PDO02 \<and> dir = FRAME_OUT then None else Some (example_frame frameType dir))\<rparr>"

text \<open>The task and the world that InitDevice makes of configuration \<open>''5''\<close>.\<close>

definition example_task :: SignalIOTaskData where
  "example_task =
     \<lparr>readFramesList = (\<lambda>_. None)(SDO := Some 0, PDO01 := Some 2, PDO02 := Some 4),
      writeFramesList = (\<lambda>_. None)(SDO := Some 1, PDO01 := Some 3, PDO02 := Some 5),
      statusWord = 0, controlWord = 6,
      measuresList = (\<lambda>_. 0),
      isReading = False, isOutputChannelUsed = False,
      readPayload = (\<lambda>_. 0), writePayload = (\<lambda>_. 0)\<rparr>"

definition example_world :: world where
  "example_world =
     \<lparr>tasksList = Some (Map.empty(53 \<mapsto> Some example_task)),
      tasksList_size = 1,
      trace = [InitFrame SDO FRAME_IN 5, InitFrame SDO FRAME_OUT 5,
               InitFrame PDO01 FRAME_IN 5, InitFrame PDO01 FRAME_OUT 5,
               InitFrame PDO02 FRAME_IN 5, InitFrame PDO02 FRAME_OUT 5,
               WriteSingleValue (Some 1) 0x6040 0x00 6]\<rparr>"

text \<open>
  The world after \<^verbatim>\<open>AcquireOutputChannel\<close> of the velocity channel in
  \<open>example_world\<close>.
\<close>

definition acquired_task :: SignalIOTaskData where
  "acquired_task = example_task\<lparr>controlWord := 15, isOutputChannelUsed := True\<rparr>"

definition acquired_world :: world where
  "acquired_world =
     \<lparr>tasksList = Some (Map.empty(53 \<mapsto> Some acquired_task)),
      tasksList_size = 1,
      trace = trace example_world @
              [WriteSingleValue (Some 1) 0x6060 0x00 0xFE,
               WriteSingleValue (Some 1) 0x6040 0x00 7, Delay 200,
               WriteSingleValue (Some 1) 0x6040 0x00 15]\<rparr>"

section \<open>Properties\<close>

subsection \<open>Bytes and words\<close>

lemma uint_ucast8: "uint (ucast (b::8 word) :: 32 word) = uint b"
  by (simp add: uint_up_ucast is_up)

lemma u8_bound: "uint (b::8 word) < 256" "0 \<le> uint b"
  using uint_lt2p[of b] by simp_all

lemma le16_uint:
  "uint (ucast (b5::8 word) * 0x100 + ucast (b4::8 word) :: 32 word) = uint b4 + 256 * uint b5"
proof -
  have "uint (ucast b5 * 0x100 + ucast b4 :: 32 word) = (uint b5 * 256 + uint b4) mod 2 ^ 32"
    by (simp add: uint_word_ariths uint_ucast8 mod_simps)
  also have "\<dots> = uint b5 * 256 + uint b4"
    using u8_bound[of b5] u8_bound[of b4] by (intro mod_pos_pos_trivial) auto
  finally show ?thesis by simp
qed

lemma le32_uint:
  "uint (ucast (b3::8 word) * 0x1000000 + ucast (b2::8 word) * 0x10000 + ucast (b1::8 word) * 0x100 + ucast (b0::8 word) :: 32 word)
     = uint b0 + 256 * uint b1 + 65536 * uint b2 + 16777216 * uint b3"
proof -
  have "uint (ucast b3 * 0x1000000 + ucast b2 * 0x10000 + ucast b1 * 0x100 + ucast b0 :: 32 word)
       = (uint b3 * 16777216 + uint b2 * 65536 + uint b1 * 256 + uint b0) mod 2 ^ 32"
    by (simp add: uint_word_ariths uint_ucast8 mod_simps)
  also have "\<dots> = uint b3 * 16777216 + uint b2 * 65536 + uint b1 * 256 + uint b0"
    using u8_bound[of b3] u8_bound[of b2] u8_bound[of b1] u8_bound[of b0] by (intro mod_pos_pos_trivial) auto
  finally show ?thesis by simp
qed

lemma sint_eq_uint32: "sint (x::32 word) = (if uint x < 2 ^ 31 then uint x else uint x - 2 ^ 32)"
proof -
  have b: "0 \<le> uint x" "uint x < 4294967296" using uint_lt2p[of x] by simp_all
  have "sint x = (uint x + 2147483648) mod 4294967296 - 2147483648"
    by (simp add: sint_uint signed_take_bit_eq_take_bit_shift take_bit_eq_mod)
  moreover have "(uint x + 2147483648) mod 4294967296 = (if uint x < 2147483648 then uint x + 2147483648 else uint x - 2147483648)"
  proof (cases "uint x < 2147483648")
    case True then show ?thesis using b by (simp add: mod_pos_pos_trivial)
  next
    case False
    have e: "uint x + 2147483648 = uint x - 2147483648 + 4294967296" by arith
    have "(uint x + 2147483648) mod 4294967296 = (uint x - 2147483648) mod 4294967296"
      unfolding e by (rule mod_add_self2)
    also have "\<dots> = uint x - 2147483648" using b False by (simp add: mod_pos_pos_trivial)
    finally show ?thesis using False by simp
  qed
  ultimately show ?thesis by simp
qed

lemma sint_small32: "uint (x::32 word) < 2 ^ 31 \<Longrightarrow> sint x = uint x"
  by (simp add: sint_eq_uint32)

lemma sdiv_nonneg: "0 \<le> (a::int) \<Longrightarrow> 0 \<le> b \<Longrightarrow> a sdiv b = a div b"
  by (auto simp add: signed_divide_int_def sgn_if)

lemma int_div_nonneg:
  assumes a: "uint a < 2 ^ 31" and b: "uint b < 2 ^ 31"
  shows "int_div a b = a div b"
proof -
  have s: "sint a = uint a" "sint b = uint b" using a b by (simp_all add: sint_eq_uint32)
  have "uint a sdiv uint b = uint a div uint b"
    by (rule sdiv_nonneg) simp_all
  then have "int_div a b = word_of_int (uint a div uint b)" using s by (simp add: int_div_def)
  then show ?thesis by (simp add: word_div_def)
qed

lemma mask_FF00: "(0xFF00::32 word) = push_bit 8 (mask 8)" 
  by (simp add: mask_eq_exp_minus_1 push_bit_eq_mult)

lemma mask_FF0000: "(0xFF0000::32 word) = push_bit 16 (mask 8)" 
  by (simp add: mask_eq_exp_minus_1 push_bit_eq_mult)

lemma mask_FF000000: "(0xFF000000::32 word) = push_bit 24 (mask 8)" 
  by (simp add: mask_eq_exp_minus_1 push_bit_eq_mult)

lemma mask_FF: "(0xFF::32 word) = mask 8" 
  by (simp add: mask_eq_exp_minus_1)

lemma and_shifted_mask:
  "(x::32 word) AND push_bit k (mask 8) = push_bit k (take_bit 8 (drop_bit k x))"
  by (rule bit_word_eqI) (auto simp add: bit_and_iff bit_push_bit_iff bit_mask_iff bit_take_bit_iff bit_drop_bit_eq)

lemma uint_ucast_to8: "uint (ucast (w::32 word) :: 8 word) = uint w mod 256"
  by (simp add: unsigned_ucast_eq take_bit_eq_mod)

lemma uint_shifted_byte:
  "uint (push_bit k (take_bit 8 (drop_bit k (x::32 word))) :: 32 word)
     = (uint x div 2 ^ k mod 256 * 2 ^ k) mod 4294967296"
proof -
  have "uint x mod 4294967296 = uint x"
    using uint_lt2p[of x] by (intro mod_pos_pos_trivial) simp_all
  then show ?thesis
    by (simp only: unsigned_push_bit_eq unsigned_take_bit_eq unsigned_drop_bit_eq)
       (simp add: take_bit_eq_mod push_bit_eq_mult drop_bit_eq_div)
qed

lemma uint_and_FF: "uint ((x::32 word) AND 0xFF) = uint x mod 256"
proof -
  have "uint x mod 256 < 256" by simp
  then have "uint x mod 256 mod 4294967296 = uint x mod 256"
    by (intro mod_pos_pos_trivial) simp_all
  then show ?thesis
    using uint_shifted_byte[of 0 x] and_shifted_mask[of x 0] by (simp add: mask_FF)
qed

lemma uint_and_FF00: "uint ((x::32 word) AND 0xFF00) = (uint x div 256 mod 256) * 256"
proof -
  have "(uint x div 256 mod 256) * 256 < 256 * 256"
    by (intro mult_strict_right_mono) simp_all
  then have "(uint x div 256 mod 256) * 256 mod 4294967296 = (uint x div 256 mod 256) * 256"
    by (intro mod_pos_pos_trivial) simp_all
  then show ?thesis
    using uint_shifted_byte[of 8 x] by (simp add: mask_FF00 and_shifted_mask)
qed

lemma uint_and_FF0000: "uint ((x::32 word) AND 0xFF0000) = (uint x div 65536 mod 256) * 65536"
proof -
  have "(uint x div 65536 mod 256) * 65536 < 256 * 65536"
    by (intro mult_strict_right_mono) simp_all
  then have "(uint x div 65536 mod 256) * 65536 mod 4294967296 = (uint x div 65536 mod 256) * 65536"
    by (intro mod_pos_pos_trivial) simp_all
  then show ?thesis
    using uint_shifted_byte[of 16 x] by (simp add: mask_FF0000 and_shifted_mask)
qed

lemma uint_and_FF000000: "uint ((x::32 word) AND 0xFF000000) = (uint x div 16777216 mod 256) * 16777216"
proof -
  have "(uint x div 16777216 mod 256) * 16777216 < 256 * 16777216"
    by (intro mult_strict_right_mono) simp_all
  then have "(uint x div 16777216 mod 256) * 16777216 mod 4294967296 = (uint x div 16777216 mod 256) * 16777216"
    by (intro mod_pos_pos_trivial) simp_all
  then show ?thesis
    using uint_shifted_byte[of 24 x] by (simp add: mask_FF000000 and_shifted_mask)
qed

lemma uint_int_byte0: "uint (int_byte0 x) = uint x mod 256"
  by (simp add: int_byte0_def uint_ucast_to8 uint_and_FF)

lemma uint_int_byte1: "uint (int_byte1 x) = uint x div 256 mod 256"
proof -
  have "uint (x AND 0xFF00) < 2 ^ 31"
    using pos_mod_bound[of 256 "uint x div 256"] by (simp add: uint_and_FF00)
  then have "int_div (x AND 0xFF00) 0x100 = (x AND 0xFF00) div 0x100"
    by (intro int_div_nonneg) simp_all
  then show ?thesis
    by (simp add: int_byte1_def uint_ucast_to8 uint_div_distrib uint_and_FF00)
qed

lemma uint_int_byte2: "uint (int_byte2 x) = uint x div 65536 mod 256"
proof -
  have "uint (x AND 0xFF0000) < 2 ^ 31"
    using pos_mod_bound[of 256 "uint x div 65536"] by (simp add: uint_and_FF0000)
  then have "int_div (x AND 0xFF0000) 0x10000 = (x AND 0xFF0000) div 0x10000"
    by (intro int_div_nonneg) simp_all
  then show ?thesis
    by (simp add: int_byte2_def uint_ucast_to8 uint_div_distrib uint_and_FF0000)
qed

lemma uint_int_byte3: "uint (int_byte3 x) = uint x div 16777216 mod 256"
  by (simp add: int_byte3_def uint_ucast_to8 uint_div_distrib uint_and_FF000000)

lemma bytes_recompose:
  assumes "0 \<le> (n::int)" "n < 4294967296"
  shows "n mod 256 + 256 * (n div 256 mod 256) + 65536 * (n div 65536 mod 256)
         + 16777216 * (n div 16777216 mod 256) = n"
proof -
  have d2: "n div 65536 = n div 256 div 256" and d3: "n div 16777216 = n div 256 div 256 div 256"
    by (simp_all add: div_mult2_eq[symmetric])
  have top: "n div 256 div 256 div 256 < 256" using assms by simp
  have "0 \<le> n div 256 div 256 div 256" using assms by simp
  then have t: "n div 256 div 256 div 256 mod 256 = n div 256 div 256 div 256"
    using top by (intro mod_pos_pos_trivial)
  have e1: "n = n mod 256 + 256 * (n div 256)" by simp
  have e2: "n div 256 = n div 256 mod 256 + 256 * (n div 256 div 256)" by simp
  have e3: "n div 256 div 256 = n div 256 div 256 mod 256 + 256 * (n div 256 div 256 div 256)" by simp
  show ?thesis unfolding d2 d3 t using e1 e2 e3 by linarith
qed

lemma two_bytes_recompose: "(n::int) mod 256 + 256 * (n div 256 mod 256) = n mod 65536"
proof -
  show ?thesis using zmod_zmult2_eq[of 256 n 256] by simp
qed

lemma uint_scast16: "uint (scast (h::16 word) :: 32 word) mod 65536 = uint h"
proof -
  have "uint (scast h :: 32 word) = sint h mod 2 ^ LENGTH(32)"
    unfolding scast_eq by (rule uint_word_of_int)
  then have "uint (scast h :: 32 word) mod 65536 = sint h mod 4294967296 mod 65536"
    by simp
  also have "\<dots> = sint h mod 65536"
    by (rule mod_mod_cancel) simp
  also have "\<dots> = uint h"
    using uint_sint[of h] by (simp add: take_bit_eq_mod)
  finally show ?thesis .
qed

lemma uint_narrow16:
  "uint (ucast ((scast (c::16 word) :: 32 word) + k) :: 16 word) = (sint c + uint k) mod 65536"
proof -
  have "uint (ucast ((scast c :: 32 word) + k) :: 16 word) = uint ((scast c :: 32 word) + k) mod 65536"
    by (simp add: unsigned_ucast_eq take_bit_eq_mod)
  also have "\<dots> = (uint (scast c :: 32 word) + uint k) mod 4294967296 mod 65536"
    by (simp add: uint_word_ariths)
  also have "\<dots> = (uint (scast c :: 32 word) + uint k) mod 65536"
    by (rule mod_mod_cancel) simp
  also have "\<dots> = (uint (scast c :: 32 word) mod 65536 + uint k) mod 65536"
    by (simp only: mod_add_left_eq)
  also have "\<dots> = (uint c + uint k) mod 65536"
    by (simp only: uint_scast16)
  also have "\<dots> = (sint c mod 65536 + uint k) mod 65536"
    using uint_sint[of c] by (simp add: take_bit_eq_mod)
  also have "\<dots> = (sint c + uint k) mod 65536"
    by (simp only: mod_add_left_eq)
  finally show ?thesis .
qed

lemma sint_word_of_int16:
  "- (2 ^ 15) \<le> n \<Longrightarrow> n < 2 ^ 15 \<Longrightarrow> sint (word_of_int n :: 16 word) = n"
  by (simp add: sint_sbintrunc' signed_take_bit_int_eq_self)

lemma upt_8: "[0..<8] = [0, 1, 2, 3, 4, 5, 6, 7::nat]"
  by code_simp

lemma le16_4: "le16 p 4 = uint (p 4) + 256 * uint (p 5)"
  by (simp add: le16_def)

lemma le32_0: "le32 p 0 = uint (p 0) + 256 * uint (p 1) + 65536 * uint (p 2) + 16777216 * uint (p 3)"
  by (simp add: le32_def numeral_2_eq_2 numeral_3_eq_3)

subsection \<open>Doubles\<close>

text \<open>\<open>ilog2\<close> is the exponent of its argument.\<close>

lemma pow2_pos: "0 < pow2 k"
  by (simp add: pow2_def)

lemma round_half_even_nearest: "\<bar>of_int (round_half_even x) - x\<bar> \<le> 1 / 2"
proof -
  define f where "f = \<lfloor>x\<rfloor>"
  define d where "d = x - of_int f"
  have d: "0 \<le> d" "d < 1" unfolding d_def f_def by linarith+
  have x: "x = of_int f + d" unfolding d_def by simp
  have r: "round_half_even x = (if d < 1 / 2 then f else if 1 / 2 < d then f + 1
                                else if even f then f else f + 1)"
    unfolding round_half_even_def Let_def f_def[symmetric] d_def[symmetric] ..
  have e: "of_int (round_half_even x) - x = of_int (round_half_even x - f) - d"
    by (simp add: d_def)
  show ?thesis
  proof (cases "d < 1 / 2")
    case True
    then have "round_half_even x - f = 0" using r by simp
    then show ?thesis unfolding e using d True by simp
  next
    case False
    show ?thesis
    proof (cases "1 / 2 < d")
      case True
      then have "round_half_even x - f = 1" using r False by simp
      then show ?thesis unfolding e using d True by simp
    next
      case F2: False
      then have h: "d = 1 / 2" using False by simp
      have "round_half_even x - f = 0 \<or> round_half_even x - f = 1" using r by auto
      then show ?thesis unfolding e using h by auto
    qed
  qed
qed

lemma round_half_even_of_int: "round_half_even (of_int n) = n"
  by (simp add: round_half_even_def)

lemma ilog2_ge1:
  assumes "1 \<le> x"
  shows "pow2 (ilog2 x) \<le> x \<and> x < pow2 (ilog2 x + 1)"
proof -
  have p: "0 < \<lfloor>x\<rfloor>" using assms by linarith
  from bitlen_bounds[OF p] have b: "2 ^ nat (bitlen \<lfloor>x\<rfloor> - 1) \<le> \<lfloor>x\<rfloor>" "\<lfloor>x\<rfloor> < 2 ^ nat (bitlen \<lfloor>x\<rfloor>)"
    by auto
  have g: "1 \<le> bitlen \<lfloor>x\<rfloor>" using p by (simp add: bitlen_alt_def)
  have "(2::rat) ^ nat (bitlen \<lfloor>x\<rfloor> - 1) = of_int (2 ^ nat (bitlen \<lfloor>x\<rfloor> - 1))" by simp
  also have "\<dots> \<le> of_int \<lfloor>x\<rfloor>" using b(1) by (simp only: of_int_le_iff)
  also have "\<dots> \<le> x" by simp
  finally have l: "(2::rat) ^ nat (bitlen \<lfloor>x\<rfloor> - 1) \<le> x" .
  have "\<lfloor>x\<rfloor> + 1 \<le> 2 ^ nat (bitlen \<lfloor>x\<rfloor>)" using b(2) by simp
  then have "of_int (\<lfloor>x\<rfloor> + 1) \<le> (of_int (2 ^ nat (bitlen \<lfloor>x\<rfloor>)) :: rat)" by (simp only: of_int_le_iff)
  moreover have "x < of_int (\<lfloor>x\<rfloor> + 1)" by linarith
  ultimately have u: "x < 2 ^ nat (bitlen \<lfloor>x\<rfloor>)" by simp
  show ?thesis using assms l u g by (simp add: ilog2_def pow2_def)
qed


lemma pow2_neg: "0 \<le> k \<Longrightarrow> pow2 (- k) = 1 / 2 ^ nat k"
  by (cases "k = 0") (simp_all add: pow2_def)

lemma pow2_Suc: "pow2 (k + 1) = 2 * pow2 k"
proof (cases "0 \<le> k")
  case True
  then show ?thesis by (simp add: pow2_def nat_add_distrib)
next
  case False
  then have n: "nat (- k) = Suc (nat (- (k + 1)))" by simp
  show ?thesis
  proof (cases "k = - 1")
    case True
    then show ?thesis by (simp add: pow2_def)
  next
    case F: False
    then show ?thesis using False unfolding pow2_def n by simp
  qed
qed

lemma ilog2_lt1:
  assumes "0 < x" "x < 1"
  shows "pow2 (ilog2 x) \<le> x \<and> x < pow2 (ilog2 x + 1)"
proof -
  define y where "y = 1 / x"
  have y1: "1 \<le> y" using assms by (simp add: y_def)
  define k where "k = bitlen \<lfloor>y\<rfloor> - 1"
  have k0: "0 \<le> k" using y1 unfolding k_def by (simp add: bitlen_alt_def)
  from ilog2_ge1[OF y1] have b: "2 ^ nat k \<le> y" "y < 2 ^ nat (k + 1)"
    using y1 k0 by (simp_all add: ilog2_def pow2_def k_def)
  have xy: "x = 1 / y" using assms by (simp add: y_def)
  have i: "ilog2 x = (if y = pow2 k then - k else - k - 1)"
    using assms by (simp add: ilog2_def y_def k_def Let_def)
  show ?thesis
  proof (cases "y = pow2 k")
    case True
    then have e: "x = pow2 (- k)" using xy k0 by (simp add: pow2_neg) (simp add: pow2_def)
    have "x < 2 * x" using assms by simp
    then have "x < pow2 (- k + 1)" unfolding pow2_Suc e[symmetric] .
    moreover have "ilog2 x = - k" using i True by simp
    ultimately show ?thesis using e by simp
  next
    case False
    then have s: "2 ^ nat k < y" using b(1) k0 by (simp add: pow2_def)
    have "1 / 2 ^ nat (k + 1) < x" unfolding xy using b(2) y1
      by (simp add: field_simps)
    then have l: "pow2 (- (k + 1)) < x" using k0 pow2_neg[of "k + 1"] by (simp del: minus_add_distrib)
    have "x < 1 / 2 ^ nat k" unfolding xy using s y1 by (simp add: field_simps)
    then have u: "x < pow2 (- k)" using k0 by (simp add: pow2_neg)
    have "ilog2 x = - (k + 1)" using i False by simp
    moreover have "- (k + 1) + 1 = - k" by simp
    ultimately show ?thesis using l u by simp
  qed
qed

lemma ilog2_bounds:
  assumes "0 < x"
  shows "pow2 (ilog2 x) \<le> x \<and> x < pow2 (ilog2 x + 1)"
  using assms ilog2_ge1[of x] ilog2_lt1[of x] by (cases "1 \<le> x") simp_all

text \<open>
  Rounding goes to a nearest point of the grid whose spacing is the unit in the last
  place, and leaves every integer of at most 53 bits alone: the conversion of an int to
  double is exact.
\<close>

lemma round_double_nearest:
  "\<bar>round_double x - x\<bar> \<le> pow2 (max (ilog2 \<bar>x\<bar>) (- 1022) - 52) / 2"
proof (cases "x = 0")
  case True
  then show ?thesis using pow2_pos[of "max (ilog2 \<bar>x\<bar>) (- 1022) - 52"] by (simp add: round_double_def)
next
  case False
  define u where "u = pow2 (max (ilog2 \<bar>x\<bar>) (- 1022) - 52)"
  have u: "0 < u" unfolding u_def by (rule pow2_pos)
  have "round_double x - x = (of_int (round_half_even (x / u)) - x / u) * u"
    using False u by (simp add: round_double_def u_def[symmetric] Let_def field_simps)
  then have "\<bar>round_double x - x\<bar> = \<bar>of_int (round_half_even (x / u)) - x / u\<bar> * u"
    using u by (simp add: abs_mult)
  also have "\<dots> \<le> (1 / 2) * u"
    using round_half_even_nearest[of "x / u"] u by (intro mult_right_mono) simp_all
  finally show ?thesis by (simp add: u_def)
qed


lemma round_double_of_int:
  assumes "\<bar>n\<bar> < 2 ^ 53"
  shows "round_double (of_int n) = of_int n"
proof (cases "n = 0")
  case True
  then show ?thesis by (simp add: round_double_def)
next
  case False
  define x :: rat where "x = of_int n"
  define e where "e = ilog2 \<bar>x\<bar>"
  have x1: "1 \<le> \<bar>x\<bar>" using False unfolding x_def by (simp flip: of_int_abs)
  have e0: "0 \<le> e"
  proof -
    have "0 < \<lfloor>\<bar>x\<bar>\<rfloor>" using x1 by linarith
    then have "1 \<le> bitlen \<lfloor>\<bar>x\<bar>\<rfloor>" by (simp add: bitlen_alt_def)
    then show ?thesis using x1 by (simp add: e_def ilog2_def)
  qed
  have "pow2 e \<le> \<bar>x\<bar>" using ilog2_bounds[of "\<bar>x\<bar>"] x1 by (simp add: e_def)
  moreover have "\<bar>x\<bar> < 2 ^ 53"
  proof -
    have "\<bar>x\<bar> = of_int \<bar>n\<bar>" by (simp add: x_def)
    also have "\<dots> < of_int (2 ^ 53)" using assms by (simp only: of_int_less_iff)
    finally show ?thesis by simp
  qed
  ultimately have "(2::rat) ^ nat e < 2 ^ 53" using e0 by (simp add: pow2_def)
  then have "nat e < 53" by (simp only: power_strict_increasing_iff[of 2]) 
  then have e52: "e \<le> 52" by simp
  define j where "j = nat (52 - e)"
  have u: "pow2 (max e (- 1022) - 52) = 1 / 2 ^ j"
    using e0 e52 pow2_neg[of "52 - e"] by (simp add: j_def max_def)
  have d: "x / (1 / 2 ^ j) = of_int (n * 2 ^ j)" by (simp add: x_def)
  have "round_double x = of_int (round_half_even (x / (1 / 2 ^ j))) * (1 / 2 ^ j)"
    using False by (simp add: round_double_def x_def e_def[symmetric, unfolded x_def] u[unfolded x_def] Let_def)
  also have "\<dots> = of_int (n * 2 ^ j) * (1 / 2 ^ j)"
    unfolding d round_half_even_of_int ..
  also have "\<dots> = x" by (simp add: x_def)
  finally show ?thesis by (simp add: x_def)
qed

lemma int_to_double_exact: "round_double (int_to_double x) = int_to_double x"
proof -
  have "- (2 ^ 31) \<le> sint x" "sint x < 2 ^ 31"
    using sint_ge[of x] sint_lt[of x] by simp_all
  then have "\<bar>sint x\<bar> < 2 ^ 53" by simp
  then show ?thesis unfolding int_to_double_def by (rule round_double_of_int)
qed

lemma ddiv_nearest:
  "\<bar>ddiv x y - x / y\<bar> \<le> pow2 (max (ilog2 \<bar>x / y\<bar>) (- 1022) - 52) / 2"
  unfolding ddiv_def by (rule round_double_nearest)

subsection \<open>The examples\<close>

lemma X31_hash_5: "X31_hash ''5'' = 53"
  by (simp add: X31_hash_def)

lemma decimal_5: "decimal ''5'' = 5"
  by (simp add: decimal_def)

lemma LoadTaskData_example:
  "LoadTaskData example_externals ''5'' initial_world
     = (Some example_task, example_world\<lparr>tasksList := None, tasksList_size := 0\<rparr>)"
  by (simp add: LoadTaskData_def example_externals_def decimal_5 CAN_FRAME_TYPES_def
        zeroTaskData_def Let_def emit_def initial_world_def example_task_def example_world_def
        ENABLE_VOLTAGE_def QUICK_STOP_def)

lemma InitDevice_example:
  "InitDevice example_externals initial_world ''5'' = Inr (53, example_world)"
  using LoadTaskData_example
  by (simp add: InitDevice_def X31_hash_5 example_externals_def Let_def initial_world_def
        example_world_def)

lemma registered_example:
  "tasksList example_world = Some (Map.empty(53 \<mapsto> Some example_task))"
  "(Map.empty(53 \<mapsto> Some example_task)) (53::32 word) = Some (Some example_task)"
  by (simp_all add: example_world_def)

lemma registered_acquired:
  "tasksList acquired_world = Some (Map.empty(53 \<mapsto> Some acquired_task))"
  "(Map.empty(53 \<mapsto> Some acquired_task)) (53::32 word) = Some (Some acquired_task)"
  by (simp_all add: acquired_world_def)

lemma AcquireOutputChannel_example:
  "AcquireOutputChannel example_world 53 OUTPUT_VELOCITY = Inr (True, acquired_world)"
  by (simp add: AcquireOutputChannel_def example_world_def example_task_def acquired_world_def
        acquired_task_def EnableOutput_def Let_def emit_def OPERATION_MODES_def
        OUTPUT_VELOCITY_def OUTPUT_CHANNELS_NUMBER_def SWITCH_ON_def ENABLE_OPERATION_def)

lemma dmul_10: "dmul 10 1000 = 10000"
  by code_simp

lemma dmul_minus_1: "dmul (- 1) 1000 = - 1000"
  by code_simp

lemma dmul_max_int: "dmul 2147483647 1000 = 2147483647000"
  by code_simp

lemma dmul_min_int: "dmul (- 2147483648) 1000 = - 2147483648000"
  by code_simp

lemma ddiv_minus_999: "ddiv (- 999) 1000 = - (8998192055486251 / 9007199254740992)"
  by code_simp

lemma trunc_numeral [simp]: "trunc (numeral n) = numeral n" "trunc (- numeral n) = - numeral n"
  by (simp_all add: trunc_def)

subsection \<open>Decoding the inbound frames\<close>

lemma current_word:
  fixes b4 b5 :: "8 word"
  defines "hex \<equiv> (ucast b5 * 0x100 + ucast b4 :: 32 word)"
  defines "raw \<equiv> uint b4 + 256 * uint b5"
  shows "sint (hex - (if 0x8000 \<le>s hex then 0xFFFF else 0)) = (if raw < 0x8000 then raw else raw - 0xFFFF)"
proof -
  have u: "uint hex = raw" unfolding hex_def raw_def by (rule le16_uint)
  have r: "0 \<le> raw" "raw < 65536" using u8_bound[of b4] u8_bound[of b5] unfolding raw_def by auto
  have s: "sint hex = raw" using u r by (simp add: sint_small32)
  have c: "(0x8000 \<le>s hex) = (32768 \<le> raw)" by (simp add: word_sle_eq s)
  show ?thesis
  proof (cases "raw < 0x8000")
    case True
    then show ?thesis using c s by simp
  next
    case False
    have "sint (hex - 0xFFFF) = signed_take_bit 31 (raw - 65535)"
      by (simp add: sint_word_diff s)
    also have "\<dots> = raw - 65535"
      using r False by (intro signed_take_bit_int_eq_self) simp_all
    finally show ?thesis using c False by simp
  qed
qed

lemma position_word:
  fixes b0 b1 b2 b3 :: "8 word"
  defines "u \<equiv> uint b0 + 256 * uint b1 + 65536 * uint b2 + 16777216 * uint b3"
  shows "sint (ucast b3 * 0x1000000 + ucast b2 * 0x10000 + ucast b1 * 0x100 + ucast b0 :: 32 word)
         = (if b3 < 0x80 then u else u - 2 ^ 32)"
proof -
  have b: "uint b3 < 128 \<longleftrightarrow> u < 2147483648"
    using u8_bound[of b0] u8_bound[of b1] u8_bound[of b2] u8_bound[of b3] unfolding u_def by linarith
  have "(b3 < 0x80) = (uint b3 < 128)" by (simp add: word_less_def)
  then show ?thesis
    using b unfolding u_def by (simp add: sint_eq_uint32 le32_uint)
qed

lemma decode_current:
  fixes p :: "nat \<Rightarrow> 8 word"
  shows "int_to_double ((ucast (p 5) * 0x100 + ucast (p 4))
            - (if 0x8000 \<le>s (ucast (p 5) * 0x100 + ucast (p 4) :: 32 word) then 0xFFFF else 0))
         = of_int (if le16 p 4 < 0x8000 then le16 p 4 else le16 p 4 - 0xFFFF)"
  unfolding int_to_double_def current_word le16_4 by simp

lemma decode_position:
  fixes p :: "nat \<Rightarrow> 8 word"
  shows "int_to_double (ucast (p 3) * 0x1000000 + ucast (p 2) * 0x10000 + ucast (p 1) * 0x100 + ucast (p 0))
         = of_int (if p 3 < 0x80 then le32 p 0 else le32 p 0 - 2 ^ 32)"
  unfolding int_to_double_def position_word le32_0 by simp

lemma decode_position_Suc:
  fixes p :: "nat \<Rightarrow> 8 word"
  shows "int_to_double (ucast (p 3) * 0x1000000 + ucast (p 2) * 0x10000 + ucast (p (Suc 0)) * 0x100 + ucast (p 0))
         = of_int (if p 3 < 0x80 then le32 p 0 else le32 p 0 - 2 ^ 32)"
  using decode_position[of p] by simp

lemma Read_frames_current:
  "measuresList (fst (Read_frames X t w1)) INPUT_CURRENT =
     ddiv (of_int (let raw = le16 (CANFrame_Read X (length (trace w1)) (readFramesList t PDO01)) 4
                   in if raw < 0x8000 then raw else raw - 0xFFFF)) 1000"
  by (simp add: Read_frames_def Let_def emit_def decode_current
        INPUT_CURRENT_def INPUT_POSITION_def INPUT_VELOCITY_def INPUT_ANALOG_def
        split del: if_split cong: if_cong)

lemma Read_frames_position:
  "measuresList (fst (Read_frames X t w1)) INPUT_POSITION =
     of_int (let p = CANFrame_Read X (length (trace w1)) (readFramesList t PDO01)
             in if p 3 < 0x80 then le32 p 0 else le32 p 0 - 2 ^ 32)"
  by (simp add: Read_frames_def Let_def emit_def decode_position_Suc
        INPUT_CURRENT_def INPUT_POSITION_def INPUT_VELOCITY_def INPUT_ANALOG_def
        split del: if_split cong: if_cong)

lemma Read_frames_velocity:
  "measuresList (fst (Read_frames X t w1)) INPUT_VELOCITY =
     of_int (let p = CANFrame_Read X (Suc (length (trace w1))) (readFramesList t PDO02)
             in if p 3 < 0x80 then le32 p 0 else le32 p 0 - 2 ^ 32)"
  by (simp add: Read_frames_def Let_def emit_def decode_position_Suc
        INPUT_CURRENT_def INPUT_POSITION_def INPUT_VELOCITY_def INPUT_ANALOG_def
        split del: if_split cong: if_cong)

lemma Read_frames_trace:
  "trace (snd (Read_frames X t w1))
     = trace w1 @ [FrameRead (readFramesList t PDO01), FrameRead (readFramesList t PDO02)]"
  by (simp add: Read_frames_def Let_def emit_def)

lemma Read_registered:
  assumes "tasksList w = Some m" and "m h = Some (Some t)" and "c < INPUT_CHANNELS_NUMBER"
  shows "Read X w h c =
           Inr ((1, Some (measuresList (fst (Read_frames X t (emit Sync w))) c)),
                (snd (Read_frames X t (emit Sync w)))
                  \<lparr>tasksList := Some (m(h \<mapsto> Some (fst (Read_frames X t (emit Sync w)))))\<rparr>)"
  using assms by (simp add: Read_def Let_def split_beta)

lemma pow2_mono: "a \<le> b \<Longrightarrow> pow2 a \<le> pow2 b"
proof -
  assume "a \<le> b"
  then obtain n where b: "b = a + int n" by (metis zle_iff_zadd)
  have "pow2 (a + int n) = 2 ^ n * pow2 a"
  proof (induction n)
    case 0
    then show ?case by simp
  next
    case (Suc n)
    have "a + int (Suc n) = (a + int n) + 1" by simp
    then have "pow2 (a + int (Suc n)) = pow2 ((a + int n) + 1)" by (simp only:)
    also have "\<dots> = 2 * pow2 (a + int n)" by (rule pow2_Suc)
    finally show ?case using Suc by simp
  qed
  moreover have "(1::rat) \<le> 2 ^ n" by simp
  ultimately show ?thesis using pow2_pos[of a] unfolding b
    by (metis mult_le_cancel_right1 not_le order_less_imp_le)
qed

lemma ilog2_less:
  assumes "0 < x" and "x < pow2 k"
  shows "ilog2 x < k"
proof (rule ccontr)
  assume "\<not> ilog2 x < k"
  then have "pow2 k \<le> pow2 (ilog2 x)" by (intro pow2_mono) simp
  then show False using ilog2_bounds[OF assms(1)] assms(2) by simp
qed

text \<open>
  The quotient by 1000 of an integer below 65536 in size is a double below 128 in size,
  so the rounding moves it by half of \<open>2 powr -46\<close> at most.
\<close>

lemma ddiv_1000_close:
  assumes "\<bar>r\<bar> < 65536"
  shows "\<bar>ddiv (of_int r) 1000 - of_int r / 1000\<bar> \<le> 1 / 2 ^ 47"
proof (cases "r = 0")
  case True
  then show ?thesis by (simp add: ddiv_def round_double_def)
next
  case False
  define x :: rat where "x = of_int r / 1000"
  have x0: "0 < \<bar>x\<bar>" using False by (simp add: x_def)
  have lt: "of_int \<bar>r\<bar> < (of_int 65536 :: rat)"
    using assms by (simp only: of_int_less_iff)
  have "\<bar>x\<bar> = of_int \<bar>r\<bar> / 1000" by (simp add: x_def)
  also have "\<dots> < of_int 65536 / 1000"
    using lt by (rule divide_strict_right_mono) simp
  also have "\<dots> < pow2 7" by (simp add: pow2_def)
  finally have "ilog2 \<bar>x\<bar> < 7" by (intro ilog2_less[OF x0])
  then have "max (ilog2 \<bar>x\<bar>) (- 1022) - 52 \<le> - 46" by simp
  then have "pow2 (max (ilog2 \<bar>x\<bar>) (- 1022) - 52) \<le> pow2 (- 46)" by (rule pow2_mono)
  then have "pow2 (max (ilog2 \<bar>x\<bar>) (- 1022) - 52) / 2 \<le> 1 / 2 ^ 47"
    by (simp add: pow2_def)
  then show ?thesis
    using ddiv_nearest[of "of_int r" 1000] unfolding x_def by linarith
qed

lemma le16_bounds: "0 \<le> le16 p i" "le16 p i < 65536"
  using u8_bound[of "p i"] u8_bound[of "p (i + 1)"] unfolding le16_def by linarith+

text \<open>
  C1. On a registered handle and a valid channel, Read returns 1 and the measure of the
  channel asked for, and stores in \<^verbatim>\<open>measuresList[INPUT_CURRENT]\<close> the current in amps:
  with \<open>raw\<close> bytes 4 and 5 of the inbound PDO1 payload read as an unsigned 16-bit
  little-endian number, and \<open>mA\<close> equal to \<open>raw\<close> when \<open>raw < 0x8000\<close> and to
  \<open>raw - 0xFFFF\<close> otherwise, the stored value is \<open>mA / 1000\<close> rounded to the
  nearest double, which is within \<open>1 / 2 ^ 47\<close> of \<open>mA / 1000\<close>. The payload is
  the one the transport hands out at the second call of this Read, after the
  synchronisation.
\<close>

theorem Read_decodes_current:
  assumes "tasksList w = Some m" and "m h = Some (Some t)" and "c < INPUT_CHANNELS_NUMBER"
  shows "\<exists>t' w' m'. Read X w h c = Inr ((1, Some (measuresList t' c)), w')
           \<and> tasksList w' = Some m' \<and> m' h = Some (Some t')
           \<and> (let raw = le16 (CANFrame_Read X (Suc (length (trace w))) (readFramesList t PDO01)) 4;
                   mA = (if raw < 0x8000 then raw else raw - 0xFFFF)
               in measuresList t' INPUT_CURRENT = round_double (of_int mA / 1000)
                  \<and> \<bar>measuresList t' INPUT_CURRENT - of_int mA / 1000\<bar> \<le> 1 / 2 ^ 47)"
proof -
  define raw where
    "raw = le16 (CANFrame_Read X (Suc (length (trace w))) (readFramesList t PDO01)) 4"
  define mA where "mA = (if raw < 0x8000 then raw else raw - 0xFFFF)"
  have "\<bar>mA\<bar> < 65536"
    using le16_bounds[of "CANFrame_Read X (Suc (length (trace w))) (readFramesList t PDO01)" 4]
    unfolding mA_def raw_def by (simp split: if_splits)
  then have near: "\<bar>ddiv (of_int mA) 1000 - of_int mA / 1000\<bar> \<le> 1 / 2 ^ 47"
    by (rule ddiv_1000_close)
  have cur: "measuresList (fst (Read_frames X t (emit Sync w))) INPUT_CURRENT = ddiv (of_int mA) 1000"
    using Read_frames_current[of X t "emit Sync w"]
    by (simp add: emit_def mA_def raw_def Let_def)
  show ?thesis
    using Read_registered[OF assms, of X] cur near
    by (simp add: Let_def raw_def[symmetric] mA_def[symmetric] ddiv_def)
qed

theorem Read_decodes_current_witness:
  "INPUT_CURRENT < INPUT_CHANNELS_NUMBER
   \<and> le16 example_payload 4 = 0xFC18
   \<and> (\<exists>t' w' m'. Read example_externals example_world 53 INPUT_CURRENT
                       = Inr ((1, Some (measuresList t' INPUT_CURRENT)), w')
          \<and> tasksList w' = Some m' \<and> m' 53 = Some (Some t')
          \<and> measuresList t' INPUT_CURRENT = - (8998192055486251 / 9007199254740992)
          \<and> \<bar>measuresList t' INPUT_CURRENT - (- 999) / 1000\<bar> \<le> 1 / 2 ^ 47)"
proof -
  have c: "INPUT_CURRENT < INPUT_CHANNELS_NUMBER"
    by (simp add: INPUT_CURRENT_def INPUT_CHANNELS_NUMBER_def)
  have l: "le16 example_payload 4 = 0xFC18"
    by (simp add: le16_def example_payload_def)
  have r: "round_double (- 999 / 1000) = - (8998192055486251 / 9007199254740992)"
    using ddiv_minus_999 by (simp add: ddiv_def)
  show ?thesis
    using Read_decodes_current [OF registered_example c, of example_externals] c l r
    by (simp add: example_externals_def Let_def)
qed

text \<open>
  C3, in the signed reading the code has. On a registered handle and a valid channel, Read stores as position
  and as velocity the signed 32-bit value of bytes 0 to 3 of the inbound PDO1 and PDO2
  payloads: with \<open>u = b0 + 256 * b1 + 65536 * b2 + 16777216 * b3\<close>, the measure is
  \<open>u\<close> when \<open>b3 < 0x80\<close> and \<open>u - 4294967296\<close> when \<open>b3 \<ge> 0x80\<close>.
\<close>

theorem Read_decodes_position_velocity:
  assumes "tasksList w = Some m" and "m h = Some (Some t)" and "c < INPUT_CHANNELS_NUMBER"
  shows "\<exists>t' w' m'. Read X w h c = Inr ((1, Some (measuresList t' c)), w')
           \<and> tasksList w' = Some m' \<and> m' h = Some (Some t')
           \<and> measuresList t' INPUT_POSITION =
               of_int (let p = CANFrame_Read X (Suc (length (trace w))) (readFramesList t PDO01)
                       in if p 3 < 0x80 then le32 p 0 else le32 p 0 - 2 ^ 32)
           \<and> measuresList t' INPUT_VELOCITY =
               of_int (let p = CANFrame_Read X (Suc (Suc (length (trace w)))) (readFramesList t PDO02)
                       in if p 3 < 0x80 then le32 p 0 else le32 p 0 - 2 ^ 32)"
  using Read_registered[OF assms, of X] Read_frames_position[of X t "emit Sync w"]
    Read_frames_velocity[of X t "emit Sync w"]
  by (simp add: emit_def)

theorem Read_decodes_position_velocity_witness:
  "INPUT_POSITION < INPUT_CHANNELS_NUMBER
   \<and> le32 high_payload 0 = 0x80000000 \<and> \<not> high_payload 3 < 0x80
   \<and> (\<exists>t' w' m'. Read high_externals example_world 53 INPUT_POSITION
                       = Inr ((1, Some (measuresList t' INPUT_POSITION)), w')
          \<and> tasksList w' = Some m' \<and> m' 53 = Some (Some t')
          \<and> measuresList t' INPUT_POSITION = - 2147483648
          \<and> measuresList t' INPUT_VELOCITY = - 2147483648)"
proof -
  have c: "INPUT_POSITION < INPUT_CHANNELS_NUMBER"
    by (simp add: INPUT_POSITION_def INPUT_CHANNELS_NUMBER_def)
  have l: "le32 high_payload 0 = 0x80000000" "\<not> high_payload 3 < 0x80"
    by (simp_all add: le32_0 high_payload_def)
  show ?thesis
    using Read_decodes_position_velocity [OF registered_example c, of high_externals] c l
    by (simp add: high_externals_def example_externals_def)
qed

text \<open>
  The unsigned reading fails from \<open>0x80000000\<close> on: with position bytes
  \<open>00 00 00 80\<close>, whose unsigned value is 2147483648, Read returns the position
  - 2147483648.
\<close>

theorem Read_position_unsigned_counterexample:
  "returned (Read high_externals example_world 53 INPUT_POSITION) = Some (1, Some (- 2147483648))
   \<and> map high_payload [0, 1, 2, 3] = [0x00, 0x00, 0x00, 0x80]
   \<and> le32 high_payload 0 = 2147483648"
  by code_simp

subsection \<open>Encoding the outbound frames\<close>

lemma int_bytes_le32:
  "uint (int_byte0 x) + 256 * uint (int_byte1 x) + 65536 * uint (int_byte2 x)
     + 16777216 * uint (int_byte3 x) = uint x"
  unfolding uint_int_byte0 uint_int_byte1 uint_int_byte2 uint_int_byte3
  using uint_lt2p[of x] by (intro bytes_recompose) simp_all

lemma int16_bytes_le16:
  "uint (int_byte0 (scast (h::16 word))) + 256 * uint (int_byte1 (scast h)) = uint h"
  unfolding uint_int_byte0 uint_int_byte1 two_bytes_recompose by (rule uint_scast16)

lemma double_to_int_in_range:
  "- (2 ^ 31) \<le> trunc x \<Longrightarrow> trunc x < 2 ^ 31 \<Longrightarrow> uint (double_to_int X x) = trunc x mod 2 ^ 32"
  by (simp add: double_to_int_def uint_word_of_int)

lemma double_to_int16_in_range:
  assumes "- (2 ^ 31) \<le> trunc x" and "trunc x < 2 ^ 31"
  shows "uint (double_to_int16 X x) = trunc x mod 2 ^ 16"
proof -
  have "uint (double_to_int16 X x) = uint (double_to_int X x) mod 65536"
    by (simp add: double_to_int16_def unsigned_ucast_eq take_bit_eq_mod)
  also have "\<dots> = trunc x mod 4294967296 mod 65536"
    using double_to_int_in_range[OF assms, of X] by simp
  also have "\<dots> = trunc x mod 65536"
    by (rule mod_mod_cancel) simp
  finally show ?thesis by simp
qed

lemma Write_registered:
  assumes "tasksList w = Some m" and "m h = Some (Some t)"
  shows "\<exists>w'. Write X w h c v = Inr (True, w')
          \<and> trace w' = trace w @
               [FrameWrite (writeFramesList t PDO01)
                  [int_byte0 (double_to_int X v), int_byte1 (double_to_int X v),
                   int_byte2 (double_to_int X v), int_byte3 (double_to_int X v),
                   int_byte0 (scast (ucast ((scast (double_to_int16 X (dmul v 1000)) :: 32 word)
                                + (if dmul v 1000 < 0 then 0xFFFF else 0)) :: 16 word)),
                   int_byte1 (scast (ucast ((scast (double_to_int16 X (dmul v 1000)) :: 32 word)
                                + (if dmul v 1000 < 0 then 0xFFFF else 0)) :: 16 word)),
                   int_byte0 (ucast (controlWord t)), int_byte1 (ucast (controlWord t))],
                FrameWrite (writeFramesList t PDO02)
                  [int_byte0 (double_to_int X v), int_byte1 (double_to_int X v),
                   int_byte2 (double_to_int X v), int_byte3 (double_to_int X v),
                   int_byte0 (scast (double_to_int16 X v)), int_byte1 (scast (double_to_int16 X v)),
                   0, 0],
                Sync]"
  using assms
  by (simp add: Write_def Let_def emit_def upt_8 split del: if_split)

text \<open>
  C2, with the encoding the code has for negative values. On a registered handle, for any
  channel argument and every value, Write returns true after handing the transport the
  outbound PDO1 payload, the outbound PDO2 payload and one synchronisation, in this
  order. For a value that truncates into the range of int, bytes 0 to 3 of both payloads
  are the little-endian two's complement 32-bit encoding of the truncated value. For a
  value whose product by 1000, as doubles multiply, truncates into the range of int,
  bytes 4 and 5 of the PDO1 payload are the little-endian encoding of the low 16 bits of
  the truncated product when the product is not negative, and of the truncated product
  plus \<open>0xFFFF\<close>, that is one less than the truncated product, when it is negative.
  Write(H, 10.0) puts 10 into both 32-bit fields and 10000 into the current field;
  2147483647 and - 2147483648 go into the 32-bit fields as they are.
\<close>

theorem Write_encodes_setpoints:
  assumes "tasksList w = Some m" and "m h = Some (Some t)"
  shows "\<exists>p1 p2 w'. Write X w h c v = Inr (True, w')
          \<and> trace w' = trace w @ [FrameWrite (writeFramesList t PDO01) p1,
                                   FrameWrite (writeFramesList t PDO02) p2, Sync]
          \<and> (- (2 ^ 31) \<le> trunc v \<and> trunc v < 2 ^ 31 \<longrightarrow>
                 le32 ((!) p1) 0 = trunc v mod 2 ^ 32 \<and> le32 ((!) p2) 0 = trunc v mod 2 ^ 32)
          \<and> (- (2 ^ 31) \<le> trunc (dmul v 1000) \<and> trunc (dmul v 1000) < 2 ^ 31 \<longrightarrow>
                 le16 ((!) p1) 4
                   = (trunc (dmul v 1000) + (if dmul v 1000 < 0 then 0xFFFF else 0)) mod 2 ^ 16)"
proof -
  define es where "es = double_to_int X v"
  define c16 where "c16 = double_to_int16 X (dmul v 1000)"
  define d16 where "d16 = double_to_int16 X v"
  define k :: "32 word" where "k = (if dmul v 1000 < 0 then 0xFFFF else 0)"
  define hex :: "16 word" where "hex = ucast ((scast c16 :: 32 word) + k)"
  let ?p1 = "[int_byte0 es, int_byte1 es, int_byte2 es, int_byte3 es,
              int_byte0 (scast hex), int_byte1 (scast hex),
              int_byte0 (ucast (controlWord t)), int_byte1 (ucast (controlWord t))]"
  let ?p2 = "[int_byte0 es, int_byte1 es, int_byte2 es, int_byte3 es,
              int_byte0 (scast d16), int_byte1 (scast d16), 0, 0]"
  from Write_registered[OF assms, of X c v]
  obtain w' where W: "Write X w h c v = Inr (True, w')"
    and T: "trace w' = trace w @ [FrameWrite (writeFramesList t PDO01) ?p1,
                                  FrameWrite (writeFramesList t PDO02) ?p2, Sync]"
    unfolding hex_def k_def es_def c16_def d16_def by blast
  have l1: "le32 ((!) ?p1) 0 = uint es" and l2: "le32 ((!) ?p2) 0 = uint es"
    unfolding le32_0 using int_bytes_le32[of es] by simp_all
  have a: "- (2 ^ 31) \<le> trunc v \<and> trunc v < 2 ^ 31 \<longrightarrow>
             le32 ((!) ?p1) 0 = trunc v mod 2 ^ 32 \<and> le32 ((!) ?p2) 0 = trunc v mod 2 ^ 32"
    using l1 l2 double_to_int_in_range[of v X] unfolding es_def by simp
  have uk: "uint k = (if dmul v 1000 < 0 then 0xFFFF else 0)"
    unfolding k_def by simp
  have l3: "le16 ((!) ?p1) 4 = uint hex"
    unfolding le16_4 using int16_bytes_le16[of hex] by simp
  have uhex: "uint hex = (uint c16 + uint k) mod 65536"
  proof -
    have "uint hex = (sint c16 + uint k) mod 65536"
      unfolding hex_def by (rule uint_narrow16)
    also have "\<dots> = (sint c16 mod 65536 + uint k) mod 65536"
      by (simp only: mod_add_left_eq)
    also have "sint c16 mod 65536 = uint c16"
      using uint_sint[of c16] by (simp add: take_bit_eq_mod)
    finally show ?thesis .
  qed
  have g: "- (2 ^ 31) \<le> trunc (dmul v 1000) \<and> trunc (dmul v 1000) < 2 ^ 31 \<longrightarrow>
             le16 ((!) ?p1) 4
               = (trunc (dmul v 1000) + (if dmul v 1000 < 0 then 0xFFFF else 0)) mod 2 ^ 16"
  proof
    assume r: "- (2 ^ 31) \<le> trunc (dmul v 1000) \<and> trunc (dmul v 1000) < 2 ^ 31"
    then have "uint c16 = trunc (dmul v 1000) mod 65536"
      unfolding c16_def using double_to_int16_in_range[of "dmul v 1000" X] by simp
    then have "uint hex = (trunc (dmul v 1000) mod 65536 + uint k) mod 65536"
      using uhex by simp
    also have "\<dots> = (trunc (dmul v 1000) + uint k) mod 65536"
      by (simp only: mod_add_left_eq)
    finally show "le16 ((!) ?p1) 4
               = (trunc (dmul v 1000) + (if dmul v 1000 < 0 then 0xFFFF else 0)) mod 2 ^ 16"
      unfolding l3 uk by simp
  qed
  show ?thesis using W T a g by blast
qed

theorem Write_encodes_setpoints_witness:
  "- (2 ^ 31) \<le> trunc 10 \<and> trunc 10 < 2 ^ 31
   \<and> - (2 ^ 31) \<le> trunc (dmul 10 1000) \<and> trunc (dmul 10 1000) < 2 ^ 31
   \<and> (\<exists>p1 p2 w'. Write example_externals example_world 53 OUTPUT_VELOCITY 10 = Inr (True, w')
          \<and> trace w' = trace example_world @ [FrameWrite (Some 3) p1, FrameWrite (Some 5) p2, Sync]
          \<and> le32 ((!) p1) 0 = 10 \<and> le32 ((!) p2) 0 = 10 \<and> le16 ((!) p1) 4 = 10000)
   \<and> (\<exists>p1 p2 w'. Write example_externals example_world 53 OUTPUT_POSITION 2147483647 = Inr (True, w')
          \<and> trace w' = trace example_world @ [FrameWrite (Some 3) p1, FrameWrite (Some 5) p2, Sync]
          \<and> le32 ((!) p1) 0 = 2147483647 \<and> le32 ((!) p2) 0 = 2147483647)
   \<and> (\<exists>p1 p2 w'. Write example_externals example_world 53 OUTPUT_POSITION (- 2147483648) = Inr (True, w')
          \<and> trace w' = trace example_world @ [FrameWrite (Some 3) p1, FrameWrite (Some 5) p2, Sync]
          \<and> le32 ((!) p1) 0 = 2147483648 \<and> le32 ((!) p2) 0 = 2147483648)"
proof -
  have r: "- (2 ^ 31) \<le> trunc 10 \<and> trunc 10 < 2 ^ 31
           \<and> - (2 ^ 31) \<le> trunc (dmul 10 1000) \<and> trunc (dmul 10 1000) < 2 ^ 31"
    by (simp add: dmul_10)
  have a: "\<exists>p1 p2 w'. Write example_externals example_world 53 OUTPUT_VELOCITY 10 = Inr (True, w')
          \<and> trace w' = trace example_world @ [FrameWrite (Some 3) p1, FrameWrite (Some 5) p2, Sync]
          \<and> le32 ((!) p1) 0 = 10 \<and> le32 ((!) p2) 0 = 10 \<and> le16 ((!) p1) 4 = 10000"
    using Write_encodes_setpoints [OF registered_example, of example_externals OUTPUT_VELOCITY 10]
    by (simp add: example_task_def dmul_10)
  have b: "\<exists>p1 p2 w'. Write example_externals example_world 53 OUTPUT_POSITION 2147483647 = Inr (True, w')
          \<and> trace w' = trace example_world @ [FrameWrite (Some 3) p1, FrameWrite (Some 5) p2, Sync]
          \<and> le32 ((!) p1) 0 = 2147483647 \<and> le32 ((!) p2) 0 = 2147483647"
    using Write_encodes_setpoints [OF registered_example, of example_externals OUTPUT_POSITION 2147483647]
    by (simp add: example_task_def dmul_max_int)
  have c: "\<exists>p1 p2 w'. Write example_externals example_world 53 OUTPUT_POSITION (- 2147483648) = Inr (True, w')
          \<and> trace w' = trace example_world @ [FrameWrite (Some 3) p1, FrameWrite (Some 5) p2, Sync]
          \<and> le32 ((!) p1) 0 = 2147483648 \<and> le32 ((!) p2) 0 = 2147483648"
    using Write_encodes_setpoints [OF registered_example, of example_externals OUTPUT_POSITION "- 2147483648"]
    by (simp add: example_task_def dmul_min_int)
  show ?thesis using r a b c by blast
qed

text \<open>
  Truncation alone does not give the current field of a negative value: Write(H, -1.0)
  sends the bytes \<open>17 FC\<close>, that is 64535 or - 1001 as int16_t, where the 16-bit
  encoding of - 1000 is 64536.
\<close>

theorem Write_negative_current_counterexample:
  "returned (Write example_externals example_world 53 OUTPUT_CURRENT (- 1)) = Some True
   \<and> trace_after (Write example_externals example_world 53 OUTPUT_CURRENT (- 1))
       = trace example_world @
         [FrameWrite (Some 3) [0xFF, 0xFF, 0xFF, 0xFF, 0x17, 0xFC, 0x06, 0x00],
          FrameWrite (Some 5) [0xFF, 0xFF, 0xFF, 0xFF, 0xFF, 0xFF, 0x00, 0x00], Sync]
   \<and> le16 ((!) [0xFF, 0xFF, 0xFF, 0xFF, 0x17, 0xFC, 0x06, 0x00]) 4 = 64535
   \<and> trunc (dmul (- 1) 1000) mod 2 ^ 16 = 64536"
  by code_simp

subsection \<open>Channel checks\<close>

text \<open>
  Read and AcquireOutputChannel turn an out-of-range channel down before any call of the
  transport, and ReleaseOutputChannel does nothing for one.
\<close>

lemma out_of_range_channel_rejected:
  assumes "tasksList w = Some m" and "m h = Some (Some t)"
  shows "INPUT_CHANNELS_NUMBER \<le> c \<Longrightarrow> Read X w h c = Inr ((0, None), w)"
    and "OUTPUT_CHANNELS_NUMBER \<le> c \<Longrightarrow> AcquireOutputChannel w h c = Inr (False, w)"
    and "OUTPUT_CHANNELS_NUMBER \<le> c \<Longrightarrow> ReleaseOutputChannel w h c = Inr w"
  using assms
  by (simp_all add: Read_def AcquireOutputChannel_def ReleaseOutputChannel_def)

text \<open>
  C4. Write has no such check: on a registered handle, Write with the out-of-range
  channel 7 does not report failure. It returns true after writing both frames and
  synchronising the bus.
\<close>

theorem Write_unchecked_channel:
  "OUTPUT_CHANNELS_NUMBER \<le> 7
   \<and> returned (Write example_externals example_world 53 7 10) = Some True
   \<and> trace_after (Write example_externals example_world 53 7 10)
       = trace example_world @
         [FrameWrite (Some 3) [0x0A, 0x00, 0x00, 0x00, 0x10, 0x27, 0x06, 0x00],
          FrameWrite (Some 5) [0x0A, 0x00, 0x00, 0x00, 0x0A, 0x00, 0x00, 0x00], Sync]"
  by code_simp

subsection \<open>Registration\<close>

text \<open>
  C7. InitDevice is idempotent by configuration hash: when a call of InitDevice with a
  configuration text has returned a handle, a second call with the same text returns the
  same handle, which is the hash of the text, and changes nothing: no transport call is
  made, so no Task is constructed, and the registry is the one the first call left, with
  its one entry for that key.
\<close>

theorem InitDevice_idempotent:
  assumes "InitDevice X w taskConfig = Inr (h, w1)"
  shows "InitDevice X w1 taskConfig = Inr (h, w1) \<and> h = kh_str_hash_func X taskConfig
         \<and> (\<exists>m. tasksList w1 = Some m \<and> m h \<noteq> None)"
  using assms
  by (auto simp: InitDevice_def Let_def EndDevice_def
           split: option.splits prod.splits if_splits sum.splits)

theorem InitDevice_idempotent_witness:
  "InitDevice example_externals initial_world ''5'' = Inr (53, example_world)
   \<and> InitDevice example_externals example_world ''5'' = Inr (53, example_world)"
  using InitDevice_idempotent [OF InitDevice_example] InitDevice_example by simp

text \<open>
  A task that LoadTaskData returns has all six frame handles: a single allocation that
  fails makes it return the null task.
\<close>

lemma LoadTaskData_frames:
  assumes "LoadTaskData X taskConfig w = (Some t, w1)"
  shows "readFramesList t frameType \<noteq> None \<and> writeFramesList t frameType \<noteq> None"
  using assms
  by (cases frameType)
     (auto simp: LoadTaskData_def Let_def CAN_FRAME_TYPES_def zeroTaskData_def split: if_splits)

text \<open>
  When construction fails, LoadTaskData has released the frame handles it asked for and
  returns the null task. InitDevice stores it and calls EndDevice, which finds the key
  and writes \<^verbatim>\<open>task->isReading\<close> through the null pointer: the call never reaches
  \<^verbatim>\<open>return -1\<close>.
\<close>

lemma LoadTaskData_failure_releases:
  "LoadTaskData failing_externals ''5'' initial_world
     = (None, \<lparr>tasksList = None, tasksList_size = 0,
               trace = [InitFrame SDO FRAME_IN 5, InitFrame SDO FRAME_OUT 5,
                        InitFrame PDO01 FRAME_IN 5, InitFrame PDO01 FRAME_OUT 5,
                        InitFrame PDO02 FRAME_IN 5, InitFrame PDO02 FRAME_OUT 5,
                        EndFrame (Some 0), EndFrame (Some 1), EndFrame (Some 2),
                        EndFrame (Some 3), EndFrame (Some 4), EndFrame None]\<rparr>)"
  by (simp add: LoadTaskData_def failing_externals_def example_externals_def decimal_5
        CAN_FRAME_TYPES_def zeroTaskData_def Let_def emit_def initial_world_def
        UnloadTaskData_def)

lemma InitDevice_load_failure:
  assumes "LoadTaskData X taskConfig w = (None, w1)"
    and "case tasksList w of None \<Rightarrow> True | Some m \<Rightarrow> m (kh_str_hash_func X taskConfig) = None"
  shows "InitDevice X w taskConfig = Inl NullDereference"
  using assms
  by (auto simp: InitDevice_def Let_def EndDevice_def split: option.splits)

text \<open>
  C5. With a transport that fails to allocate one of the six frames, InitDevice on the
  fresh program does not return \<open>-1\<close>: it dereferences the null task.
\<close>

theorem InitDevice_construction_failure_faults:
  "InitDevice failing_externals initial_world ''5'' = Inl NullDereference"
  using LoadTaskData_failure_releases
  by (intro InitDevice_load_failure) (simp_all add: initial_world_def)

subsection \<open>Handles that are not registered\<close>

text \<open>
  While the table exists, every operation on a handle that is not in it returns its
  failure or empty result and changes nothing. While \<^verbatim>\<open>tasksList\<close> is null, every
  operation but InitDevice dereferences it in \<^verbatim>\<open>kh_get\<close>.
\<close>

lemma absent_handle_noop:
  assumes "tasksList w = Some m" and "m h = None"
  shows "EndDevice X w h = Inr w"
    and "GetMaxInputSamplesNumber w h = Inr 0"
    and "Read X w h c = Inr ((0, None), w)"
    and "HasError w h = Inr False"
    and "Reset w h = Inr w"
    and "CheckInputChannel w h c = Inr False"
    and "Write X w h c v = Inr (False, w)"
    and "AcquireOutputChannel w h c = Inr (False, w)"
    and "ReleaseOutputChannel w h c = Inr w"
  using assms
  by (simp_all add: EndDevice_def GetMaxInputSamplesNumber_def Read_def HasError_def Reset_def
        CheckInputChannel_def Write_def AcquireOutputChannel_def ReleaseOutputChannel_def)

lemma no_registry_faults:
  assumes "tasksList w = None"
  shows "EndDevice X w h = Inl NullDereference"
    and "GetMaxInputSamplesNumber w h = Inl NullDereference"
    and "Read X w h c = Inl NullDereference"
    and "HasError w h = Inl NullDereference"
    and "Reset w h = Inl NullDereference"
    and "CheckInputChannel w h c = Inl NullDereference"
    and "Write X w h c v = Inl NullDereference"
    and "AcquireOutputChannel w h c = Inl NullDereference"
    and "ReleaseOutputChannel w h c = Inl NullDereference"
  using assms
  by (simp_all add: EndDevice_def GetMaxInputSamplesNumber_def Read_def HasError_def Reset_def
        CheckInputChannel_def Write_def AcquireOutputChannel_def ReleaseOutputChannel_def)

text \<open>
  C6. Before any registration, when \<^verbatim>\<open>tasksList\<close> is null, Read, Write, HasError,
  GetMaxInputSamplesNumber, CheckInputChannel, AcquireOutputChannel, Reset and
  ReleaseOutputChannel on handle 53 do not return their failure result: each
  dereferences the null pointer.
\<close>

theorem operations_fault_without_registry:
  "tasksList initial_world = None
   \<and> Read example_externals initial_world 53 INPUT_POSITION = Inl NullDereference
   \<and> Write example_externals initial_world 53 OUTPUT_POSITION 10 = Inl NullDereference
   \<and> HasError initial_world 53 = Inl NullDereference
   \<and> GetMaxInputSamplesNumber initial_world 53 = Inl NullDereference
   \<and> CheckInputChannel initial_world 53 INPUT_POSITION = Inl NullDereference
   \<and> AcquireOutputChannel initial_world 53 OUTPUT_POSITION = Inl NullDereference
   \<and> Reset initial_world 53 = Inl NullDereference
   \<and> ReleaseOutputChannel initial_world 53 OUTPUT_POSITION = Inl NullDereference"
proof -
  have i: "tasksList initial_world = None" by (simp add: initial_world_def)
  show ?thesis
    using i no_registry_faults(2-9)[OF i] by simp
qed

text \<open>
  On a registered handle EndDevice writes the two control words of the disable sequence
  and releases the three inbound and the three outbound frames. What becomes of the
  entry is up to what \<^verbatim>\<open>kh_del\<close> finds at the number of the key: where it finds
  nothing to delete, the entry stays in the table.
\<close>

lemma EndDevice_registered:
  assumes "tasksList w = Some m" and "m h = Some (Some t)"
  shows "\<exists>w'. EndDevice X w h = Inr w'
           \<and> trace w' = trace w @
                [WriteSingleValue (writeFramesList t SDO) 0x6040 0x00
                   (uint ((controlWord t OR SWITCH_ON) AND NOT ENABLE_OPERATION)),
                 Delay 200,
                 WriteSingleValue (writeFramesList t SDO) 0x6040 0x00
                   (uint (((controlWord t OR SWITCH_ON) AND NOT ENABLE_OPERATION) AND NOT SWITCH_ON)),
                 EndFrame (readFramesList t SDO), EndFrame (writeFramesList t SDO),
                 EndFrame (readFramesList t PDO01), EndFrame (writeFramesList t PDO01),
                 EndFrame (readFramesList t PDO02), EndFrame (writeFramesList t PDO02)]"
  using assms
  by (simp add: EndDevice_def EnableOutput_def Let_def emit_def UnloadTaskData_def
        CAN_FRAME_TYPES_def kh_del_def split: bucket.split)

lemma EndDevice_entry_stays:
  assumes "tasksList w = Some m" and "m h = Some (Some t)"
    and "\<And>n. kh_bucket X n (dom m) h = Vacant"
    and "tasksList_size w \<noteq> 0"
  shows "\<exists>w' m' t'. EndDevice X w h = Inr w' \<and> tasksList w' = Some m'
           \<and> m' h = Some (Some t') \<and> tasksList_size w' = tasksList_size w"
proof -
  have d: "insert h (dom m) = dom m" using assms(2) by auto
  show ?thesis
    using assms d
    by (simp add: EndDevice_def EnableOutput_def Let_def emit_def UnloadTaskData_def
          CAN_FRAME_TYPES_def kh_del_def)
qed

text \<open>
  C9. EndDevice on a handle that is not registered is not a no-op before any
  registration: it dereferences the null \<^verbatim>\<open>tasksList\<close>.
\<close>

theorem EndDevice_without_registry_faults:
  "tasksList initial_world = None
   \<and> EndDevice example_externals initial_world 53 = Inl NullDereference"
  by (simp add: EndDevice_def initial_world_def)

subsection \<open>Output channels\<close>

text \<open>
  C8. On a registered handle whose output channel is in use, AcquireOutputChannel of any
  channel returns false with no transport call and no change of state; after
  ReleaseOutputChannel of an output channel, AcquireOutputChannel of any output channel,
  the same or a different one, returns true and leaves the usage flag set.
\<close>

theorem AcquireOutputChannel_exclusive:
  assumes "tasksList w = Some m" and "m h = Some (Some t)" and "isOutputChannelUsed t"
    and "c1 < OUTPUT_CHANNELS_NUMBER" and "c2 < OUTPUT_CHANNELS_NUMBER"
  shows "AcquireOutputChannel w h c = Inr (False, w)
         \<and> (\<exists>w1 w2 m2 t2. ReleaseOutputChannel w h c1 = Inr w1
               \<and> AcquireOutputChannel w1 h c2 = Inr (True, w2)
               \<and> tasksList w2 = Some m2 \<and> m2 h = Some (Some t2) \<and> isOutputChannelUsed t2)"
  using assms
  by (simp add: ReleaseOutputChannel_def AcquireOutputChannel_def EnableOutput_def Let_def emit_def)

theorem AcquireOutputChannel_exclusive_witness:
  "AcquireOutputChannel example_world 53 OUTPUT_VELOCITY = Inr (True, acquired_world)
   \<and> isOutputChannelUsed acquired_task
   \<and> OUTPUT_VELOCITY < OUTPUT_CHANNELS_NUMBER \<and> OUTPUT_CURRENT < OUTPUT_CHANNELS_NUMBER
   \<and> AcquireOutputChannel acquired_world 53 OUTPUT_CURRENT = Inr (False, acquired_world)
   \<and> (\<exists>w1 w2 m2 t2. ReleaseOutputChannel acquired_world 53 OUTPUT_VELOCITY = Inr w1
          \<and> AcquireOutputChannel w1 53 OUTPUT_CURRENT = Inr (True, w2)
          \<and> tasksList w2 = Some m2 \<and> m2 53 = Some (Some t2) \<and> isOutputChannelUsed t2)"
proof -
  have u: "isOutputChannelUsed acquired_task" by (simp add: acquired_task_def)
  have c: "OUTPUT_VELOCITY < OUTPUT_CHANNELS_NUMBER" "OUTPUT_CURRENT < OUTPUT_CHANNELS_NUMBER"
    by (simp_all add: OUTPUT_VELOCITY_def OUTPUT_CURRENT_def OUTPUT_CHANNELS_NUMBER_def)
  show ?thesis
    using AcquireOutputChannel_exclusive [OF registered_acquired u c, of OUTPUT_CURRENT]
      AcquireOutputChannel_example u c
    by simp
qed

text \<open>
  C10. On a registered handle and for every output channel 0 to 2, whether or not a
  channel is in use and whichever it is, ReleaseOutputChannel writes mode of operation 0,
  then the disable sequence (control word with switch-on set and enable-operation
  cleared, the 200 ms delay, control word with switch-on cleared as well), and clears the
  usage flag, so that a following AcquireOutputChannel of any output channel returns
  true.
\<close>

theorem ReleaseOutputChannel_unconditional:
  assumes "tasksList w = Some m" and "m h = Some (Some t)"
    and "c < OUTPUT_CHANNELS_NUMBER" and "c2 < OUTPUT_CHANNELS_NUMBER"
  shows "\<exists>w1 m1 t1. ReleaseOutputChannel w h c = Inr w1
           \<and> trace w1 = trace w @
                [WriteSingleValue (writeFramesList t SDO) 0x6060 0x00 0,
                 WriteSingleValue (writeFramesList t SDO) 0x6040 0x00
                   (uint ((controlWord t OR SWITCH_ON) AND NOT ENABLE_OPERATION)),
                 Delay 200,
                 WriteSingleValue (writeFramesList t SDO) 0x6040 0x00
                   (uint (((controlWord t OR SWITCH_ON) AND NOT ENABLE_OPERATION) AND NOT SWITCH_ON))]
           \<and> tasksList w1 = Some m1 \<and> m1 h = Some (Some t1)
           \<and> \<not> isOutputChannelUsed t1
           \<and> returned (AcquireOutputChannel w1 h c2) = Some True"
  using assms
  by (simp add: ReleaseOutputChannel_def AcquireOutputChannel_def EnableOutput_def Let_def emit_def returned_def)

theorem ReleaseOutputChannel_unconditional_witness:
  "OUTPUT_VELOCITY < OUTPUT_CHANNELS_NUMBER \<and> OUTPUT_CURRENT < OUTPUT_CHANNELS_NUMBER
   \<and> \<not> isOutputChannelUsed example_task
   \<and> (\<exists>w1 m1 t1. ReleaseOutputChannel example_world 53 OUTPUT_VELOCITY = Inr w1
          \<and> trace w1 = trace example_world @
               [WriteSingleValue (Some 1) 0x6060 0x00 0,
                WriteSingleValue (Some 1) 0x6040 0x00 7, Delay 200,
                WriteSingleValue (Some 1) 0x6040 0x00 6]
          \<and> tasksList w1 = Some m1 \<and> m1 53 = Some (Some t1)
          \<and> \<not> isOutputChannelUsed t1
          \<and> returned (AcquireOutputChannel w1 53 OUTPUT_CURRENT) = Some True)"
proof -
  have c: "OUTPUT_VELOCITY < OUTPUT_CHANNELS_NUMBER" "OUTPUT_CURRENT < OUTPUT_CHANNELS_NUMBER"
    by (simp_all add: OUTPUT_VELOCITY_def OUTPUT_CURRENT_def OUTPUT_CHANNELS_NUMBER_def)
  show ?thesis
    using ReleaseOutputChannel_unconditional [OF registered_example c] c
    by (simp add: example_task_def SWITCH_ON_def ENABLE_OPERATION_def)
qed

end
